theory Spec2Isabelle
  imports Complex_Main
begin

section \<open>Validator module (validator.ts)\<close>

text \<open>
  Scores are JavaScript numbers; the engine only ever feeds whole numbers of points, so
  they are modelled as unbounded integers. Segments are strings in the board notation
  (\<open>S20\<close>, \<open>D16\<close>, \<open>T19\<close>, \<open>BULL\<close>, \<open>DBULL\<close>, \<open>MISS\<close>).
\<close>

record ValidatorOptions =
  doubleIn :: bool
  doubleOut :: bool
  masterOut :: bool

record ValidationResult =
  valid :: bool
  bust :: bool
  gameShot :: bool
  reason :: "string option"
  newScore :: "int option"

text \<open>\<open>String.prototype.startsWith\<close>.\<close>

definition startsWith :: "string \<Rightarrow> string \<Rightarrow> bool" where
  "startsWith s p = (take (length p) s = p)"

definition isDouble :: "string \<Rightarrow> bool" where
  "isDouble segment = (startsWith segment ''D'' \<or> segment = ''DBULL'')"

definition isTriple :: "string \<Rightarrow> bool" where
  "isTriple segment = startsWith segment ''T''"

definition isMaster :: "string \<Rightarrow> bool" where
  "isMaster segment = (isDouble segment \<or> isTriple segment)"

text \<open>
  \<open>validateX01Throw\<close>: the branches in the order of the source. The parameter
  \<open>dartsThrown\<close> is accepted and never read, as in the source.
\<close>

definition validateX01Throw ::
  "int \<Rightarrow> string \<Rightarrow> int \<Rightarrow> nat \<Rightarrow> 'a ValidatorOptions_scheme \<Rightarrow> ValidationResult" where
  "validateX01Throw currentScore segment throwScore dartsThrown options =
    (if throwScore < 0 then
       \<lparr>valid = False, bust = False, gameShot = False,
        reason = Some ''Invalid score'', newScore = None\<rparr>
     else if doubleIn options \<and> currentScore = 501 \<and> \<not> isDouble segment then
       \<lparr>valid = True, bust = False, gameShot = False,
        reason = Some ''Must start with a double'', newScore = Some currentScore\<rparr>
     else if currentScore - throwScore < 0 then
       \<lparr>valid = True, bust = True, gameShot = False,
        reason = Some ''Bust: score below 0'', newScore = None\<rparr>
     else if currentScore - throwScore = 1 \<and> doubleOut options then
       \<lparr>valid = True, bust = True, gameShot = False,
        reason = Some ''Bust: cannot finish on 1 with double out'', newScore = None\<rparr>
     else if currentScore - throwScore = 0 then
       (if doubleOut options \<and> \<not> isDouble segment then
          \<lparr>valid = True, bust = True, gameShot = False,
           reason = Some ''Bust: must finish on a double'', newScore = None\<rparr>
        else if masterOut options \<and> \<not> isMaster segment then
          \<lparr>valid = True, bust = True, gameShot = False,
           reason = Some ''Bust: must finish on a double or triple'', newScore = None\<rparr>
        else
          \<lparr>valid = True, bust = False, gameShot = True,
           reason = Some ''Game shot!'', newScore = Some 0\<rparr>)
     else
       \<lparr>valid = True, bust = False, gameShot = False,
        reason = None, newScore = Some (currentScore - throwScore)\<rparr>)"

subsection \<open>Checkout suggestions\<close>

text \<open>Decimal rendering of a number inside a template string, for the labels \<open>D16\<close>, \<open>T20\<close>.\<close>

definition digit :: "nat \<Rightarrow> char" where
  "digit d = char_of (48 + d)"

fun showNat :: "nat \<Rightarrow> string" where
  "showNat n = (if n < 10 then [digit n] else showNat (n div 10) @ [digit (n mod 10)])"

declare showNat.simps [simp del]

definition showInt :: "int \<Rightarrow> string" where
  "showInt i = (if i < 0 then CHR ''-'' # showNat (nat (- i)) else showNat (nat i))"

text \<open>A \<open>for\<close> loop that returns from the function at the first index that yields a result.\<close>

fun firstSome :: "('a \<Rightarrow> 'b option) \<Rightarrow> 'a list \<Rightarrow> 'b option" where
  "firstSome f [] = None"
| "firstSome f (x # xs) = (case f x of Some y \<Rightarrow> Some y | None \<Rightarrow> firstSome f xs)"

definition isFinish :: "int \<Rightarrow> bool" where
  "isFinish r = (r > 0 \<and> r \<le> 40 \<and> r mod 2 = 0)"

definition upTo20 :: "int list" where
  "upTo20 = [1,2,3,4,5,6,7,8,9,10,11,12,13,14,15,16,17,18,19,20]"

definition trebleDouble :: "int \<Rightarrow> string list option" where
  "trebleDouble score = firstSome (\<lambda>i.
     if isFinish (score - i * 3)
     then Some [''T'' @ showInt i, ''D'' @ showInt ((score - i * 3) div 2)] else None) upTo20"

definition singleDouble :: "int \<Rightarrow> string list option" where
  "singleDouble score = firstSome (\<lambda>i.
     if isFinish (score - i)
     then Some [''S'' @ showInt i, ''D'' @ showInt ((score - i) div 2)] else None) upTo20"

definition threeDartSpecial :: "int \<Rightarrow> string list option" where
  "threeDartSpecial score =
    (if score = 170 then Some [''T20'', ''T20'', ''BULL'']
     else if score = 167 then Some [''T20'', ''T19'', ''BULL'']
     else if score = 164 then Some [''T20'', ''T18'', ''BULL'']
     else if score = 161 then Some [''T20'', ''T17'', ''BULL'']
     else if score = 160 then Some [''T20'', ''T20'', ''D20'']
     else if score = 158 then Some [''T20'', ''T20'', ''D19'']
     else if score = 157 then Some [''T20'', ''T19'', ''D20'']
     else if score = 156 then Some [''T20'', ''T20'', ''D18'']
     else if score = 155 then Some [''T20'', ''T19'', ''D19'']
     else if score = 154 then Some [''T20'', ''T18'', ''D20'']
     else if score = 153 then Some [''T20'', ''T19'', ''D18'']
     else if score = 152 then Some [''T20'', ''T20'', ''D16'']
     else if score = 151 then Some [''T20'', ''T17'', ''D20'']
     else if score = 150 then Some [''T20'', ''T18'', ''D18'']
     else None)"

definition threeDartGeneric :: "int \<Rightarrow> string list option" where
  "threeDartGeneric score = firstSome (\<lambda>i.
     if score - i * 3 > 60 \<and> score - i * 3 \<le> 110 then
       firstSome (\<lambda>j.
         if isFinish (score - i * 3 - j * 3)
         then Some [''T'' @ showInt i, ''T'' @ showInt j,
                    ''D'' @ showInt ((score - i * 3 - j * 3) div 2)]
         else None) (rev upTo20)
     else None) (rev upTo20)"

function getCheckoutSuggestion :: "int \<Rightarrow> int \<Rightarrow> string list option" where
  "getCheckoutSuggestion score dartsLeft =
    (if score > 170 \<or> score \<le> 0 \<or> score = 169 \<or> score = 168 \<or> score = 166
        \<or> score = 165 \<or> score = 163 \<or> score = 162 \<or> score = 159 then None
     else if (score > 40 \<and> dartsLeft < 2) \<or> (score > 110 \<and> dartsLeft < 3) then None
     else if score \<le> 40 \<and> score mod 2 = 0 then Some [''D'' @ showInt (score div 2)]
     else
       (case (if dartsLeft \<ge> 2 then
                (if score = 50 then Some [''BULL'']
                 else if isFinish (score - 50)
                   then Some [''BULL'', ''D'' @ showInt ((score - 50) div 2)]
                 else (case trebleDouble score of Some r \<Rightarrow> Some r
                       | None \<Rightarrow> singleDouble score))
              else None) of
          Some r \<Rightarrow> Some r
        | None \<Rightarrow>
           (case (if dartsLeft \<ge> 3 then
                    (case threeDartSpecial score of Some r \<Rightarrow> Some r
                     | None \<Rightarrow> threeDartGeneric score)
                  else None) of
              Some r \<Rightarrow> Some r
            | None \<Rightarrow>
               (if score mod 2 = 1 then
                  Some (''S1'' # (case getCheckoutSuggestion (score - 1) (dartsLeft - 1) of
                                   Some r \<Rightarrow> r | None \<Rightarrow> []))
                else None))))"
  by pat_completeness auto
termination
  by (relation "measure (\<lambda>(score, dartsLeft). nat score)") auto

declare getCheckoutSuggestion.simps [simp del]


section \<open>Statistics tracker (statsTracker.ts)\<close>

text \<open>
  Counters are integers. The three derived averages are quotients; they are kept as exact
  reals here, where JavaScript rounds each to a double.
\<close>

record PlayerStats =
  ps_dartsThrown :: int
  ps_pointsScored :: int
  ps_legsWon :: int
  ps_legDarts :: "int list"
  ps_busts :: int
  ps_checkoutAttempts :: int
  ps_checkoutSuccesses :: int
  ps_highestCheckout :: int
  ps_tonPlus :: int
  ps_tonFortyPlus :: int
  ps_tonEightyPlus :: int
  ps_averageThrow :: real
  ps_checkoutPercentage :: real
  ps_dartsPerLeg :: real
  ps_bestLegDarts :: int

text \<open>\<open>players\<close> is a JavaScript \<open>Map\<close> from player id to the player's record.\<close>

record MatchStats =
  ms_players :: "int \<rightharpoonup> PlayerStats"
  ms_checkoutSuggestions :: bool
  ms_startTime :: int
  ms_endTime :: "int option"
  ms_legsPlayed :: int
  ms_currentLeg :: int
  ms_legsToWin :: int
  ms_legStarters :: "int list"

definition initPlayerStats :: PlayerStats where
  "initPlayerStats = \<lparr>ps_dartsThrown = 0, ps_pointsScored = 0, ps_legsWon = 0, ps_legDarts = [],
     ps_busts = 0, ps_checkoutAttempts = 0, ps_checkoutSuccesses = 0, ps_highestCheckout = 0,
     ps_tonPlus = 0, ps_tonFortyPlus = 0, ps_tonEightyPlus = 0, ps_averageThrow = 0,
     ps_checkoutPercentage = 0, ps_dartsPerLeg = 0, ps_bestLegDarts = 0\<rparr>"

fun initPlayersMap :: "int list \<Rightarrow> (int \<rightharpoonup> PlayerStats) \<Rightarrow> (int \<rightharpoonup> PlayerStats)" where
  "initPlayersMap [] m = m"
| "initPlayersMap (pid # ids) m = initPlayersMap ids (m(pid \<mapsto> initPlayerStats))"

definition initMatchStats :: "int list \<Rightarrow> int \<Rightarrow> int \<Rightarrow> MatchStats" where
  "initMatchStats playerIds legsToWin now =
    \<lparr>ms_players = initPlayersMap playerIds Map.empty, ms_checkoutSuggestions = True,
     ms_startTime = now, ms_endTime = None, ms_legsPlayed = 0, ms_currentLeg = 1,
     ms_legsToWin = legsToWin, ms_legStarters = []\<rparr>"

definition updatePlayerThrow ::
  "PlayerStats \<Rightarrow> int \<Rightarrow> bool \<Rightarrow> bool \<Rightarrow> bool \<Rightarrow> int \<Rightarrow> PlayerStats" where
  "updatePlayerThrow stats throwScore isBust isCheckoutAttempt isSuccessfulCheckout checkoutValue =
    (let darts = ps_dartsThrown stats + 1;
         points = (if \<not> isBust then ps_pointsScored stats + throwScore else ps_pointsScored stats);
         busts = (if isBust then ps_busts stats + 1 else ps_busts stats);
         attempts = (if isCheckoutAttempt then ps_checkoutAttempts stats + 1
                     else ps_checkoutAttempts stats);
         successes = (if isSuccessfulCheckout then ps_checkoutSuccesses stats + 1
                      else ps_checkoutSuccesses stats);
         highest = (if isSuccessfulCheckout \<and> checkoutValue > ps_highestCheckout stats
                    then checkoutValue else ps_highestCheckout stats)
     in stats\<lparr>ps_dartsThrown := darts, ps_pointsScored := points, ps_busts := busts,
          ps_checkoutAttempts := attempts, ps_checkoutSuccesses := successes,
          ps_highestCheckout := highest,
          ps_averageThrow := (if darts > 0 then (real_of_int points / real_of_int darts) * 3 else 0),
          ps_checkoutPercentage :=
            (if attempts > 0 then (real_of_int successes / real_of_int attempts) * 100 else 0)\<rparr>)"

definition updatePlayerTurn :: "PlayerStats \<Rightarrow> int \<Rightarrow> PlayerStats" where
  "updatePlayerTurn stats turnScore =
    (if turnScore \<ge> 100 \<and> turnScore < 140 then stats\<lparr>ps_tonPlus := ps_tonPlus stats + 1\<rparr>
     else if turnScore \<ge> 140 \<and> turnScore < 180
       then stats\<lparr>ps_tonFortyPlus := ps_tonFortyPlus stats + 1\<rparr>
     else if turnScore = 180 then stats\<lparr>ps_tonEightyPlus := ps_tonEightyPlus stats + 1\<rparr>
     else stats)"

definition updateLegWin :: "PlayerStats \<Rightarrow> int \<Rightarrow> PlayerStats" where
  "updateLegWin stats dartsUsedInLeg =
    (let legs = ps_legsWon stats + 1;
         legDarts = ps_legDarts stats @ [dartsUsedInLeg];
         best = (if ps_bestLegDarts stats = 0 \<or> dartsUsedInLeg < ps_bestLegDarts stats
                 then dartsUsedInLeg else ps_bestLegDarts stats)
     in stats\<lparr>ps_legsWon := legs, ps_legDarts := legDarts, ps_bestLegDarts := best,
          ps_dartsPerLeg :=
            (if legs > 0 then real_of_int (sum_list legDarts) / real_of_int legs else 0)\<rparr>)"

definition isCheckoutPosition :: "int \<Rightarrow> bool" where
  "isCheckoutPosition score =
    (score \<le> 170 \<and> score \<noteq> 169 \<and> score \<noteq> 168 \<and> score \<noteq> 166 \<and> score \<noteq> 165
     \<and> score \<noteq> 163 \<and> score \<noteq> 162 \<and> score \<noteq> 159)"

section \<open>Match manager (matchManager.ts)\<close>

subsection \<open>Data\<close>

record ThrowData =
  t_id :: int
  t_matchId :: int
  t_playerId :: int
  t_round :: int
  t_throwIndex :: int
  t_segment :: string
  t_score :: int
  t_timestamp :: int
  t_coordinates :: "(int \<times> int) option"

record PlayerGameStats =
  avgScore :: real
  highScore :: real
  checkouts :: real
  checkoutPercentage :: real
  highCheckout :: real
  dartsPerLeg :: real

text \<open>
  \<open>PlayerModel\<close> is declared in \<open>types/models\<close>, outside the sources at hand; the manager
  reads its \<open>id\<close> and \<open>stats\<close> and copies the rest. \<open>pm_stats\<close> is the stats object, already
  decoded when it was stored as a JSON string, and \<open>None\<close> when absent or undecodable.
\<close>

record PlayerModel =
  pm_id :: int
  pm_name :: string
  pm_stats :: "PlayerGameStats option"

record Player =
  p_id :: int
  p_name :: string
  p_position :: int
  p_score :: int
  p_isActive :: bool
  p_isWinner :: bool
  p_history :: "ThrowData list"
  p_currentTurn :: "ThrowData list"
  p_originalScore :: int
  p_dartsThrown :: int
  p_legsWon :: int
  p_stats :: PlayerGameStats

record ValidatorSettingsOptions = ValidatorOptions +
  startingScore :: int
  checkoutSuggestions :: bool

text \<open>\<open>Partial<ValidatorSettingsOptions>\<close>: every field may be left out.\<close>

record PartialSettings =
  o_doubleIn :: "bool option"
  o_doubleOut :: "bool option"
  o_masterOut :: "bool option"
  o_startingScore :: "int option"
  o_checkoutSuggestions :: "bool option"

datatype MatchState = Pending | Warmup | Bullshot | Active | Completed | Setup | Playing | Finished

text \<open>
  \<open>legStarters\<close> is a JavaScript array written by index; \<open>None\<close> is a hole left by a write
  past the end.
\<close>

record Match =
  m_id :: int
  m_boardId :: int
  m_mode :: string
  m_players :: "Player list"
  m_legsToWin :: int
  m_currentLeg :: int
  m_legStarters :: "int option list"
  m_activePlayerIndex :: nat
  m_round :: int
  m_state :: MatchState
  m_settings :: ValidatorSettingsOptions
  m_timestamp :: int
  m_isAutosaved :: bool
  m_stats :: MatchStats

record ThrowResults =
  r_throwData :: ThrowData
  r_validationResult :: ValidationResult
  r_bust :: bool
  r_gameShot :: bool
  r_legWon :: bool
  r_matchWon :: bool
  r_checkoutSuggestion :: "string list option"

text \<open>
  The manager object. \<open>mm_match\<close> is the field \<open>match\<close>. \<open>mm_settings\<close> is the property
  \<open>this.settings\<close> that \<open>initializePlayers\<close> reads: the class neither declares nor assigns
  it, so it is \<open>None\<close> (undefined) on every manager the constructor builds, and reading
  \<open>startingScore\<close> from it throws a TypeError. The database handle does not change the
  in-memory transitions, save for the id a successful insert returns to \<open>createMatch\<close>;
  that id is a parameter there. Emitted events are not modelled.
\<close>

record MatchManager =
  mm_match :: "Match option"
  mm_settings :: "ValidatorSettingsOptions option"

definition newMatchManager :: MatchManager where
  "newMatchManager = \<lparr>mm_match = None, mm_settings = None\<rparr>"

datatype error =
    MatchAlreadyInProgress
  | NoMatch
  | InvalidState MatchState
  | PlayerNotFound int
  | NotPlayersTurn int
  | AlreadyThrownThree
  | MatchNotFound int
  | TypeError

subsection \<open>Array helpers\<close>

text \<open>\<open>Array.prototype.findIndex\<close>; \<open>None\<close> stands for the result -1.\<close>

fun findIndex :: "('a \<Rightarrow> bool) \<Rightarrow> 'a list \<Rightarrow> nat option" where
  "findIndex P [] = None"
| "findIndex P (x # xs) = (if P x then Some 0 else map_option Suc (findIndex P xs))"

text \<open>Reading \<open>xs[i]\<close>: undefined out of range and at a hole.\<close>

definition jsIndex :: "'a option list \<Rightarrow> int \<Rightarrow> 'a option" where
  "jsIndex xs i = (if 0 \<le> i \<and> nat i < length xs then xs ! nat i else None)"

text \<open>Writing \<open>xs[i] = v\<close>: past the end the array grows, leaving holes in between.\<close>

definition jsAssign :: "'a option list \<Rightarrow> nat \<Rightarrow> 'a \<Rightarrow> 'a option list" where
  "jsAssign xs i v =
    (if i < length xs then xs[i := Some v]
     else xs @ replicate (i - length xs) None @ [Some v])"

subsection \<open>Operations\<close>

text \<open>
  Every operation takes the manager and returns either the thrown error or its result
  together with the manager as it is left. \<open>now\<close> is the reading of the clock
  (\<open>Date.now()\<close>) during the call. An operation that throws leaves no new manager
  here: the guards at the head of each operation throw before the first assignment, and
  the later throws (an index outside the player array, an empty player array) cannot be
  met once a guard has found the thrower in the array.
\<close>

definition saveMatchState :: "int \<Rightarrow> bool \<Rightarrow> Match \<Rightarrow> Match" where
  "saveMatchState now isAutosave m = m\<lparr>m_timestamp := now, m_isAutosaved := isAutosave\<rparr>"

definition createDefaultStats :: PlayerGameStats where
  "createDefaultStats = \<lparr>avgScore = 0, highScore = 0, checkouts = 0, checkoutPercentage = 0,
     highCheckout = 0, dartsPerLeg = 0\<rparr>"

definition initializePlayer :: "int \<Rightarrow> nat \<Rightarrow> PlayerModel \<Rightarrow> Player" where
  "initializePlayer start index player =
    \<lparr>p_id = pm_id player, p_name = pm_name player, p_position = int index + 1,
     p_score = start, p_isActive = (index = 0), p_isWinner = False, p_history = [],
     p_currentTurn = [], p_originalScore = start, p_dartsThrown = 0, p_legsWon = 0,
     p_stats = (case pm_stats player of Some st \<Rightarrow> st | None \<Rightarrow> createDefaultStats)\<rparr>"

text \<open>
  \<open>initializePlayers\<close> maps over the models; the callback reads
  \<open>this.settings.startingScore\<close>, so with a model to map and no \<open>settings\<close> property it
  throws.
\<close>

definition initializePlayers :: "MatchManager \<Rightarrow> PlayerModel list \<Rightarrow> error + Player list" where
  "initializePlayers mgr playerModels =
    (if playerModels = [] then Inr []
     else (case mm_settings mgr of
             None \<Rightarrow> Inl TypeError
           | Some st \<Rightarrow>
               Inr (map (\<lambda>(index, player). initializePlayer (startingScore st) index player)
                      (enumerate 0 playerModels))))"

definition resolveStartingScore :: "string \<Rightarrow> PartialSettings \<Rightarrow> int" where
  "resolveStartingScore mode settings =
    (if mode = ''x01'' then
       (let x01Value = (case o_startingScore settings of
                          None \<Rightarrow> 501 | Some v \<Rightarrow> (if v = 0 then 501 else v))
        in if x01Value \<in> set [301, 501, 701, 901] then x01Value else 501)
     else 501)"

definition validatorOptionsOf :: "int \<Rightarrow> PartialSettings \<Rightarrow> ValidatorSettingsOptions" where
  "validatorOptionsOf start settings =
    \<lparr>doubleIn = (case o_doubleIn settings of Some b \<Rightarrow> b | None \<Rightarrow> False),
     doubleOut = (case o_doubleOut settings of Some b \<Rightarrow> b | None \<Rightarrow> True),
     masterOut = (case o_masterOut settings of Some b \<Rightarrow> b | None \<Rightarrow> False),
     startingScore = start,
     checkoutSuggestions = (o_checkoutSuggestions settings \<noteq> Some False)\<rparr>"

text \<open>
  \<open>createMatch\<close>. \<open>savedId\<close> is the row id a successful insert returned, \<open>None\<close> without a
  database or when the insert failed. Reading \<open>setupPlayers[0].id\<close> of an empty player
  list throws.
\<close>

definition createMatch ::
  "MatchManager \<Rightarrow> int \<Rightarrow> PlayerModel list \<Rightarrow> string \<Rightarrow> int \<Rightarrow> PartialSettings \<Rightarrow> int option
    \<Rightarrow> int \<Rightarrow> error + (Match \<times> MatchManager)" where
  "createMatch mgr boardId players mode legsToWin settings savedId now =
    (case mm_match mgr of
       Some _ \<Rightarrow> Inl MatchAlreadyInProgress
     | None \<Rightarrow>
        (case initializePlayers mgr players of
           Inl e \<Rightarrow> Inl e
         | Inr setupPlayers \<Rightarrow>
            (case setupPlayers of
               [] \<Rightarrow> Inl TypeError
             | first # _ \<Rightarrow>
                (let m = \<lparr>m_id = (case savedId of Some i \<Rightarrow> i | None \<Rightarrow> 0),
                          m_boardId = boardId, m_mode = mode, m_players = setupPlayers,
                          m_legsToWin = legsToWin, m_currentLeg = 1,
                          m_legStarters = [Some (p_id first)], m_activePlayerIndex = 0,
                          m_round = 1, m_state = Pending,
                          m_settings = validatorOptionsOf (resolveStartingScore mode settings) settings,
                          m_timestamp = now, m_isAutosaved = False,
                          m_stats = initMatchStats (map p_id setupPlayers) legsToWin now\<rparr>
                 in Inr (m, mgr\<lparr>mm_match := Some m\<rparr>)))))"

definition startWarmup :: "MatchManager \<Rightarrow> int \<Rightarrow> error + (Match \<times> MatchManager)" where
  "startWarmup mgr now =
    (case mm_match mgr of
       None \<Rightarrow> Inl NoMatch
     | Some m \<Rightarrow>
        (if m_state m \<noteq> Pending \<and> m_state m \<noteq> Warmup then Inl (InvalidState (m_state m))
         else (let m' = saveMatchState now False (m\<lparr>m_state := Warmup\<rparr>)
               in Inr (m', mgr\<lparr>mm_match := Some m'\<rparr>))))"

definition endWarmup :: "MatchManager \<Rightarrow> int \<Rightarrow> error + (Match \<times> MatchManager)" where
  "endWarmup mgr now =
    (case mm_match mgr of
       None \<Rightarrow> Inl NoMatch
     | Some m \<Rightarrow>
        (if m_state m \<noteq> Warmup then Inl (InvalidState (m_state m))
         else (let m' = saveMatchState now False (m\<lparr>m_state := Bullshot\<rparr>)
               in Inr (m', mgr\<lparr>mm_match := Some m'\<rparr>))))"

definition setBullWinner :: "MatchManager \<Rightarrow> int \<Rightarrow> int \<Rightarrow> error + (Match \<times> MatchManager)" where
  "setBullWinner mgr playerId now =
    (case mm_match mgr of
       None \<Rightarrow> Inl NoMatch
     | Some m \<Rightarrow>
        (if m_state m \<noteq> Bullshot then Inl (InvalidState (m_state m))
         else (case findIndex (\<lambda>p. p_id p = playerId) (m_players m) of
                 None \<Rightarrow> Inl (PlayerNotFound playerId)
               | Some playerIndex \<Rightarrow>
                  (let m' = saveMatchState now False
                        (m\<lparr>m_legStarters := jsAssign (m_legStarters m) 0 playerId,
                           m_players := map (\<lambda>p. p\<lparr>p_isActive := (p_id p = playerId)\<rparr>) (m_players m),
                           m_activePlayerIndex := playerIndex,
                           m_state := Active\<rparr>)
                   in Inr (m', mgr\<lparr>mm_match := Some m'\<rparr>)))))"

definition getPlayerLegWins :: "Match \<Rightarrow> int \<Rightarrow> int" where
  "getPlayerLegWins m playerId =
    (case ms_players (m_stats m) playerId of Some st \<Rightarrow> ps_legsWon st | None \<Rightarrow> 0)"

text \<open>
  \<open>moveToNextPlayer\<close>, on the loaded match. An active index outside the player array
  reads \<open>undefined\<close> and the first field access throws. \<open>endTurn\<close> is what it does to
  the player whose turn ends.
\<close>

definition endTurn :: "Player \<Rightarrow> Player" where
  "endTurn currentPlayer = currentPlayer
     \<lparr>p_history := p_history currentPlayer @ p_currentTurn currentPlayer,
      p_currentTurn := [],
      p_originalScore := p_score currentPlayer,
      p_isActive := False\<rparr>"

definition moveToNextPlayer :: "int \<Rightarrow> Match \<Rightarrow> error + Match" where
  "moveToNextPlayer now m =
    (if m_activePlayerIndex m < length (m_players m) then
       (let currentPlayer = m_players m ! m_activePlayerIndex m;
            turnScore = sum_list (map t_score (p_currentTurn currentPlayer));
            stats = (case ms_players (m_stats m) (p_id currentPlayer) of
                       Some st \<Rightarrow> (m_stats m)\<lparr>ms_players :=
                          (ms_players (m_stats m))(p_id currentPlayer \<mapsto> updatePlayerTurn st turnScore)\<rparr>
                     | None \<Rightarrow> m_stats m);
            players1 = (m_players m)[m_activePlayerIndex m := endTurn currentPlayer];
            next = (m_activePlayerIndex m + 1) mod length (m_players m);
            players2 = players1[next := (players1 ! next)\<lparr>p_isActive := True\<rparr>]
        in Inr (saveMatchState now False
                 (m\<lparr>m_stats := stats, m_players := players2, m_activePlayerIndex := next,
                    m_round := (if next = 0 then m_round m + 1 else m_round m)\<rparr>)))
     else Inl TypeError)"

text \<open>
  \<open>setupNextLeg\<close>. A last starter that is not found gives index -1, and \<open>(-1 + 1) % n\<close>
  is 0; with no players the index is NaN and reading the starter's id throws.
\<close>

definition setupNextLeg :: "int \<Rightarrow> Match \<Rightarrow> error + Match" where
  "setupNextLeg now m =
    (let currentLeg = m_currentLeg m + 1;
         stats = (m_stats m)\<lparr>ms_currentLeg := currentLeg,
                              ms_legsPlayed := ms_legsPlayed (m_stats m) + 1\<rparr>;
         lastStarterIndex = (case jsIndex (m_legStarters m) (currentLeg - 2) of
                               None \<Rightarrow> None
                             | Some starter \<Rightarrow> findIndex (\<lambda>p. p_id p = starter) (m_players m));
         nextStarterIndex = (case lastStarterIndex of
                               None \<Rightarrow> 0
                             | Some i \<Rightarrow> (i + 1) mod length (m_players m))
     in if m_players m = [] then Inl TypeError
        else
          (let nextStarterId = p_id (m_players m ! nextStarterIndex)
           in Inr (saveMatchState now False
                (m\<lparr>m_currentLeg := currentLeg, m_stats := stats,
                   m_legStarters :=
                     (if currentLeg - 1 < 0 then m_legStarters m
                      else jsAssign (m_legStarters m) (nat (currentLeg - 1)) nextStarterId),
                   m_players := map (\<lambda>player. player
                       \<lparr>p_score := startingScore (m_settings m),
                        p_originalScore := startingScore (m_settings m),
                        p_isActive := (p_id player = nextStarterId),
                        p_isWinner := False,
                        p_currentTurn := [],
                        p_dartsThrown := 0\<rparr>) (m_players m),
                   m_activePlayerIndex := nextStarterIndex,
                   m_round := 1\<rparr>))))"

text \<open>
  The outcome of one throw (the block that follows the validation in \<open>processThrow\<close>):
  the flags \<open>bust\<close>, \<open>gameShot\<close>, \<open>legWon\<close>, \<open>matchWon\<close> and the match as it is left.
\<close>

record ThrowOutcome =
  oc_match :: Match
  oc_bust :: bool
  oc_gameShot :: bool
  oc_legWon :: bool
  oc_matchWon :: bool

definition recordLegWin :: "int \<Rightarrow> int \<Rightarrow> Match \<Rightarrow> Match" where
  "recordLegWin playerId dartsUsed m =
    (case ms_players (m_stats m) playerId of
       Some st \<Rightarrow> m\<lparr>m_stats := (m_stats m)\<lparr>ms_players :=
                     (ms_players (m_stats m))(playerId \<mapsto> updateLegWin st dartsUsed)\<rparr>\<rparr>
     | None \<Rightarrow> m)"

definition recordBust :: "int \<Rightarrow> Match \<Rightarrow> Match" where
  "recordBust playerId m =
    (case ms_players (m_stats m) playerId of
       Some st \<Rightarrow> m\<lparr>m_stats := (m_stats m)\<lparr>ms_players :=
                     (ms_players (m_stats m))(playerId \<mapsto> st\<lparr>ps_busts := ps_busts st + 1\<rparr>)\<rparr>\<rparr>
     | None \<Rightarrow> m)"

text \<open>
  \<open>player\<close> in \<open>processThrow\<close> is a reference into the player array: an assignment to one
  of its fields is an update of the array element.
\<close>

definition updatePlayer :: "nat \<Rightarrow> (Player \<Rightarrow> Player) \<Rightarrow> Match \<Rightarrow> Match" where
  "updatePlayer playerIndex f m =
    m\<lparr>m_players := (m_players m)[playerIndex := f (m_players m ! playerIndex)]\<rparr>"

text \<open>The game-shot branch: the leg is recorded, then the match or the leg ends.\<close>

definition winLeg :: "int \<Rightarrow> int \<Rightarrow> nat \<Rightarrow> Match \<Rightarrow> error + ThrowOutcome" where
  "winLeg now playerId playerIndex m =
    (let m2 = recordLegWin playerId (p_dartsThrown (m_players m ! playerIndex)) m;
         m3 = updatePlayer playerIndex (\<lambda>player. player\<lparr>p_isWinner := True\<rparr>) m2
     in if getPlayerLegWins m3 playerId \<ge> m_legsToWin m3 then
          Inr \<lparr>oc_match = m3\<lparr>m_state := Completed\<rparr>, oc_bust = False, oc_gameShot = True,
               oc_legWon = True, oc_matchWon = True\<rparr>
        else
          (case setupNextLeg now m3 of
             Inl e \<Rightarrow> Inl e
           | Inr m4 \<Rightarrow> Inr \<lparr>oc_match = m4, oc_bust = False, oc_gameShot = True,
                             oc_legWon = True, oc_matchWon = False\<rparr>))"

definition scoreThrow :: "int \<Rightarrow> int \<Rightarrow> nat \<Rightarrow> ValidationResult \<Rightarrow> Match \<Rightarrow> error + ThrowOutcome" where
  "scoreThrow now playerId playerIndex vr m =
    (if valid vr \<and> \<not> bust vr then
       (let m1 = updatePlayer playerIndex
                   (\<lambda>player. player\<lparr>p_score :=
                      (case newScore vr of Some n \<Rightarrow> n | None \<Rightarrow> p_score player)\<rparr>) m
        in if gameShot vr then winLeg now playerId playerIndex m1
           else Inr \<lparr>oc_match = m1, oc_bust = False, oc_gameShot = False,
                     oc_legWon = False, oc_matchWon = False\<rparr>)
     else if bust vr then
       Inr \<lparr>oc_match = recordBust playerId
               (updatePlayer playerIndex (\<lambda>player. player\<lparr>p_score := p_originalScore player\<rparr>) m),
            oc_bust = True, oc_gameShot = False, oc_legWon = False, oc_matchWon = False\<rparr>
     else Inr \<lparr>oc_match = m, oc_bust = False, oc_gameShot = False,
               oc_legWon = False, oc_matchWon = False\<rparr>)"

text \<open>
  The end of \<open>processThrow\<close>: after the third dart the turn passes on, unless the leg was
  won; before the third dart a checkout suggestion may be computed.
\<close>

definition finishThrow ::
  "int \<Rightarrow> nat \<Rightarrow> nat \<Rightarrow> ThrowOutcome \<Rightarrow> error + (Match \<times> string list option)" where
  "finishThrow now playerIndex dartsInTurn oc =
    (if dartsInTurn = 2 \<or> oc_legWon oc then
       (if \<not> oc_legWon oc then
          (case moveToNextPlayer now (oc_match oc) of
             Inl e \<Rightarrow> Inl e
           | Inr m \<Rightarrow> Inr (m, None))
        else Inr (oc_match oc, None))
     else
       (let player = m_players (oc_match oc) ! playerIndex
        in Inr (oc_match oc,
             if checkoutSuggestions (m_settings (oc_match oc)) \<and> isCheckoutPosition (p_score player)
             then getCheckoutSuggestion (p_score player) (3 - (int dartsInTurn + 1))
             else None)))"

text \<open>
  Two steps of \<open>processThrow\<close> by name: the throw record it builds, and the push of that
  record onto the thrower's current turn together with the increment of \<open>dartsThrown\<close>.
\<close>

definition newThrowData ::
  "Match \<Rightarrow> int \<Rightarrow> nat \<Rightarrow> string \<Rightarrow> int \<Rightarrow> (int \<times> int) option \<Rightarrow> int \<Rightarrow> ThrowData" where
  "newThrowData m playerId dartsInTurn segment score coordinates now =
    \<lparr>t_id = now, t_matchId = m_id m, t_playerId = playerId, t_round = m_round m,
     t_throwIndex = int dartsInTurn + 1, t_segment = segment, t_score = score,
     t_timestamp = now, t_coordinates = coordinates\<rparr>"

definition pushThrow :: "nat \<Rightarrow> ThrowData \<Rightarrow> Match \<Rightarrow> Match" where
  "pushThrow playerIndex throwData m =
    updatePlayer playerIndex
      (\<lambda>player. player\<lparr>p_currentTurn := p_currentTurn player @ [throwData],
                        p_dartsThrown := p_dartsThrown player + 1\<rparr>) m"

definition processThrow ::
  "MatchManager \<Rightarrow> int \<Rightarrow> string \<Rightarrow> int \<Rightarrow> (int \<times> int) option \<Rightarrow> int
    \<Rightarrow> error + (ThrowResults \<times> MatchManager)" where
  "processThrow mgr playerId segment score coordinates now =
    (case mm_match mgr of
       None \<Rightarrow> Inl NoMatch
     | Some m \<Rightarrow>
        (if m_state m \<noteq> Active then Inl (InvalidState (m_state m))
         else (case findIndex (\<lambda>p. p_id p = playerId) (m_players m) of
            None \<Rightarrow> Inl (PlayerNotFound playerId)
          | Some playerIndex \<Rightarrow>
             (if playerIndex \<noteq> m_activePlayerIndex m then Inl (NotPlayersTurn playerId)
              else
                (let player = m_players m ! playerIndex;
                     dartsInTurn = length (p_currentTurn player)
                 in if dartsInTurn \<ge> 3 then Inl AlreadyThrownThree
                    else
                      (let validationResult =
                             validateX01Throw (p_score player) segment score dartsInTurn (m_settings m);
                           throwData = newThrowData m playerId dartsInTurn segment score coordinates now
                       in (case scoreThrow now playerId playerIndex validationResult
                                  (pushThrow playerIndex throwData m) of
                             Inl e \<Rightarrow> Inl e
                           | Inr oc \<Rightarrow>
                              (case finishThrow now playerIndex dartsInTurn oc of
                                 Inl e \<Rightarrow> Inl e
                               | Inr (m2, suggestion) \<Rightarrow>
                                  Inr (\<lparr>r_throwData = throwData,
                                        r_validationResult = validationResult,
                                        r_bust = oc_bust oc, r_gameShot = oc_gameShot oc,
                                        r_legWon = oc_legWon oc, r_matchWon = oc_matchWon oc,
                                        r_checkoutSuggestion = suggestion\<rparr>,
                                       mgr\<lparr>mm_match := Some (saveMatchState now False m2)\<rparr>)))))))))"

text \<open>\<open>manualPlayerSwitch\<close> has no guard on the state; without a match it returns at once.\<close>

definition manualPlayerSwitch :: "MatchManager \<Rightarrow> int \<Rightarrow> error + MatchManager" where
  "manualPlayerSwitch mgr now =
    (case mm_match mgr of
       None \<Rightarrow> Inr mgr
     | Some m \<Rightarrow>
        (case moveToNextPlayer now m of
           Inl e \<Rightarrow> Inl e
         | Inr m' \<Rightarrow> Inr (mgr\<lparr>mm_match := Some m'\<rparr>)))"

text \<open>\<open>endMatch\<close>: the winner is marked when an id is given that is truthy (not 0).\<close>

definition endMatch :: "MatchManager \<Rightarrow> int option \<Rightarrow> int \<Rightarrow> error + (Match \<times> MatchManager)" where
  "endMatch mgr winningPlayerId now =
    (case mm_match mgr of
       None \<Rightarrow> Inl NoMatch
     | Some m \<Rightarrow>
        (let players = (case winningPlayerId of
                          None \<Rightarrow> m_players m
                        | Some w \<Rightarrow>
                           (if w = 0 then m_players m
                            else (case findIndex (\<lambda>p. p_id p = w) (m_players m) of
                                    None \<Rightarrow> m_players m
                                  | Some i \<Rightarrow> (m_players m)[i := (m_players m ! i)\<lparr>p_isWinner := True\<rparr>])));
             m' = saveMatchState now False
                    (m\<lparr>m_players := players, m_state := Completed,
                       m_stats := (m_stats m)\<lparr>ms_endTime := Some now\<rparr>\<rparr>)
         in Inr (m', mgr\<lparr>mm_match := Some m'\<rparr>)))"

subsection \<open>Persistence\<close>

text \<open>
  \<open>saveMatchToDb\<close> inserts one row into \<open>matches\<close>, one row per player into
  \<open>match_players\<close> and one row per leg into \<open>leg_starters\<close>; the model returns the rows
  it writes, with the columns its statements name. The settings column holds
  \<open>JSON.stringify(settings)\<close>, kept here as the settings object.
\<close>

record MatchRow =
  row_board_id :: int
  row_mode :: string
  row_legs_to_win :: int
  row_current_leg :: int
  row_active_player_index :: nat
  row_state :: MatchState
  row_settings :: ValidatorSettingsOptions
  row_timestamp :: int
  row_is_autosaved :: bool

record MatchPlayerRow =
  mp_player_id :: int
  mp_position :: int
  mp_original_score :: int

record LegStarterRow =
  ls_leg_number :: int
  ls_player_id :: "int option"

record Snapshot =
  snap_match :: MatchRow
  snap_players :: "MatchPlayerRow list"
  snap_legStarters :: "LegStarterRow list"

definition saveMatchToDb :: "Match \<Rightarrow> Snapshot" where
  "saveMatchToDb m =
    \<lparr>snap_match = \<lparr>row_board_id = m_boardId m, row_mode = m_mode m,
                    row_legs_to_win = m_legsToWin m, row_current_leg = m_currentLeg m,
                    row_active_player_index = m_activePlayerIndex m, row_state = m_state m,
                    row_settings = m_settings m, row_timestamp = m_timestamp m,
                    row_is_autosaved = m_isAutosaved m\<rparr>,
     snap_players = map (\<lambda>player. \<lparr>mp_player_id = p_id player, mp_position = p_position player,
                                    mp_original_score = p_originalScore player\<rparr>) (m_players m),
     snap_legStarters = map (\<lambda>(i, starter). \<lparr>ls_leg_number = int i + 1, ls_player_id = starter\<rparr>)
                          (enumerate 0 (m_legStarters m))\<rparr>"

text \<open>
  What \<open>loadMatch\<close> reads. From the \<open>matches\<close> row: \<open>board_id\<close>, \<open>mode\<close>, \<open>state\<close> and
  the JSON columns \<open>settings\<close> and \<open>scores\<close>, each \<open>None\<close> when the column is NULL and
  with every field of the decoded object optional. From \<open>match_players\<close> joined with
  \<open>players\<close>: the id, the position and the name. From \<open>throws\<close>: the rows of the match.
\<close>

record StoredSettings = PartialSettings +
  o_legsToWin :: "int option"

record ScoreEntry =
  se_id :: int
  se_score :: "int option"
  se_isActive :: "bool option"
  se_isWinner :: "bool option"

text \<open>
  The serialised statistics: \<open>players\<close> is an object keyed by the decimal player id, the
  dates are numbers here.
\<close>

record SerializedMatchStats =
  ser_players :: "(string \<times> PlayerStats) list option"
  ser_checkoutSuggestions :: bool
  ser_startTime :: int
  ser_endTime :: "int option"
  ser_legsPlayed :: int
  ser_currentLeg :: int
  ser_legsToWin :: int
  ser_legStarters :: "int list"

record StoredScores =
  sc_players :: "ScoreEntry list option"
  sc_currentLeg :: "int option"
  sc_stats :: "SerializedMatchStats option"
  sc_legStarters :: "int option list option"
  sc_round :: "int option"

record StoredMatch =
  sm_board_id :: int
  sm_mode :: string
  sm_state :: MatchState
  sm_settings :: "StoredSettings option"
  sm_scores :: "StoredScores option"

record StoredPlayer =
  sp_player_id :: int
  sp_position :: int
  sp_name :: string

record ThrowRow =
  tr_id :: int
  tr_match_id :: int
  tr_player_id :: int
  tr_round :: int
  tr_throw_number :: int
  tr_segment :: string
  tr_score :: int
  tr_timestamp :: int

text \<open>
  \<open>parseInt\<close> on an object key, called with no radix: leading white space is skipped,
  then an optional sign is read, then \<open>0x\<close> or \<open>0X\<close> announces hexadecimal digits and
  anything else is read as decimal digits, up to the first character that is no digit. No
  digit gives NaN, here \<open>None\<close>. Keys are taken to be ASCII strings.
\<close>

definition isWhiteSpace :: "char \<Rightarrow> bool" where
  "isWhiteSpace c = ((of_char c :: nat) \<in> set [9, 10, 11, 12, 13, 32])"

definition isDigit :: "char \<Rightarrow> bool" where
  "isDigit c = ((48::nat) \<le> of_char c \<and> (of_char c :: nat) \<le> 57)"

definition hexValue :: "char \<Rightarrow> nat option" where
  "hexValue c =
    (let n = (of_char c :: nat)
     in if 48 \<le> n \<and> n \<le> 57 then Some (n - 48)
        else if 65 \<le> n \<and> n \<le> 70 then Some (n - 55)
        else if 97 \<le> n \<and> n \<le> 102 then Some (n - 87)
        else None)"

definition digitsValue :: "string \<Rightarrow> int" where
  "digitsValue ds = foldl (\<lambda>acc c. acc * 10 + (int (of_char c :: nat) - 48)) 0 ds"

definition hexDigitsValue :: "string \<Rightarrow> int" where
  "hexDigitsValue ds =
    foldl (\<lambda>acc c. acc * 16 + int (case hexValue c of Some v \<Rightarrow> v | None \<Rightarrow> 0)) 0 ds"

definition parseInt :: "string \<Rightarrow> int option" where
  "parseInt str =
    (let trimmed = dropWhile isWhiteSpace str;
         negative = (case trimmed of c # _ \<Rightarrow> c = CHR ''-'' | [] \<Rightarrow> False);
         unsigned = (case trimmed of
                       c # rest \<Rightarrow> (if c = CHR ''-'' \<or> c = CHR ''+'' then rest else trimmed)
                     | [] \<Rightarrow> []);
         hex = (take 2 unsigned = ''0x'' \<or> take 2 unsigned = ''0X'');
         ds = (if hex then takeWhile (\<lambda>c. hexValue c \<noteq> None) (drop 2 unsigned)
               else takeWhile isDigit unsigned);
         magnitude = (if hex then hexDigitsValue ds else digitsValue ds)
     in if ds = [] then None
        else Some (if negative then - magnitude else magnitude))"

text \<open>
  \<open>deserializeMatchStats\<close>. An entry whose key is not a number would be stored under the
  key NaN, which no player id equals; the model drops it.
\<close>

fun deserializePlayers :: "(string \<times> PlayerStats) list \<Rightarrow> (int \<rightharpoonup> PlayerStats) \<Rightarrow> (int \<rightharpoonup> PlayerStats)" where
  "deserializePlayers [] m = m"
| "deserializePlayers ((playerId, stats) # rest) m =
     deserializePlayers rest (case parseInt playerId of Some k \<Rightarrow> m(k \<mapsto> stats) | None \<Rightarrow> m)"

definition deserializeMatchStats :: "SerializedMatchStats \<Rightarrow> MatchStats" where
  "deserializeMatchStats serializedStats =
    \<lparr>ms_players = (case ser_players serializedStats of
                     Some entries \<Rightarrow> deserializePlayers entries Map.empty
                   | None \<Rightarrow> Map.empty),
     ms_checkoutSuggestions = ser_checkoutSuggestions serializedStats,
     ms_startTime = ser_startTime serializedStats,
     ms_endTime = ser_endTime serializedStats,
     ms_legsPlayed = ser_legsPlayed serializedStats,
     ms_currentLeg = ser_currentLeg serializedStats,
     ms_legsToWin = ser_legsToWin serializedStats,
     ms_legStarters = ser_legStarters serializedStats\<rparr>"

text \<open>\<open>a || b\<close> on numbers: 0 and undefined give way to \<open>b\<close>.\<close>

definition jsOr :: "int option \<Rightarrow> int \<Rightarrow> int" where
  "jsOr a b = (case a of Some n \<Rightarrow> (if n = 0 then b else n) | None \<Rightarrow> b)"

definition emptySettings :: StoredSettings where
  "emptySettings = \<lparr>o_doubleIn = None, o_doubleOut = None, o_masterOut = None,
     o_startingScore = None, o_checkoutSuggestions = None, o_legsToWin = None\<rparr>"

definition emptyScores :: StoredScores where
  "emptyScores = \<lparr>sc_players = None, sc_currentLeg = None, sc_stats = None,
     sc_legStarters = None, sc_round = None\<rparr>"

text \<open>
  One player as \<open>loadMatch\<close> rebuilds it. The object it builds has no \<open>legsWon\<close> and no
  \<open>stats\<close> field; the model fills them with 0 and the default.
\<close>

definition loadPlayer :: "StoredSettings \<Rightarrow> StoredScores \<Rightarrow> StoredPlayer \<Rightarrow> Player" where
  "loadPlayer settings scores mp =
    (let playerScore = (case sc_players scores of
                          Some entries \<Rightarrow> find (\<lambda>p. se_id p = sp_player_id mp) entries
                        | None \<Rightarrow> None);
         score = jsOr (case playerScore of Some e \<Rightarrow> se_score e | None \<Rightarrow> None)
                   (jsOr (o_startingScore settings) 501)
     in \<lparr>p_id = sp_player_id mp, p_name = sp_name mp, p_position = sp_position mp,
         p_score = score,
         p_isActive = (case playerScore of Some e \<Rightarrow> (se_isActive e = Some True) | None \<Rightarrow> False),
         p_isWinner = (case playerScore of Some e \<Rightarrow> (se_isWinner e = Some True) | None \<Rightarrow> False),
         p_history = [], p_currentTurn = [], p_originalScore = score, p_dartsThrown = 0,
         p_legsWon = 0, p_stats = createDefaultStats\<rparr>)"

definition loadThrow :: "Player list \<Rightarrow> ThrowRow \<Rightarrow> Player list" where
  "loadThrow players t =
    (case findIndex (\<lambda>p. p_id p = tr_player_id t) players of
       None \<Rightarrow> players
     | Some i \<Rightarrow> players[i := (players ! i)
         \<lparr>p_history := p_history (players ! i) @
            [\<lparr>t_id = tr_id t, t_matchId = tr_match_id t, t_playerId = tr_player_id t,
              t_round = tr_round t, t_throwIndex = tr_throw_number t, t_segment = tr_segment t,
              t_score = tr_score t, t_timestamp = tr_timestamp t, t_coordinates = None\<rparr>],
          p_dartsThrown := p_dartsThrown (players ! i) + 1\<rparr>])"

text \<open>
  \<open>loadMatch\<close>, from what the three queries return. With no player row, reading
  \<open>players[0]\<close> throws, both for the default leg starter and for the default active player.
\<close>

definition loadMatch ::
  "MatchManager \<Rightarrow> int \<Rightarrow> StoredMatch option \<Rightarrow> StoredPlayer list \<Rightarrow> ThrowRow list \<Rightarrow> int
    \<Rightarrow> error + (Match \<times> MatchManager)" where
  "loadMatch mgr matchId row matchPlayers throws now =
    (case row of
       None \<Rightarrow> Inl (MatchNotFound matchId)
     | Some match \<Rightarrow>
        (let settings = (case sm_settings match of Some st \<Rightarrow> st | None \<Rightarrow> emptySettings);
             scores = (case sm_scores match of Some sc \<Rightarrow> sc | None \<Rightarrow> emptyScores);
             players = foldl loadThrow (map (loadPlayer settings scores) matchPlayers) throws
         in (case players of
               [] \<Rightarrow> Inl TypeError
             | first # _ \<Rightarrow>
                (let legsToWin = jsOr (o_legsToWin settings) 3;
                     m = \<lparr>m_id = matchId, m_boardId = sm_board_id match, m_mode = sm_mode match,
                          m_players = players, m_legsToWin = legsToWin,
                          m_currentLeg = jsOr (sc_currentLeg scores) 1,
                          m_legStarters = (case sc_legStarters scores of
                                             Some starters \<Rightarrow> starters
                                           | None \<Rightarrow> [Some (p_id first)]),
                          m_activePlayerIndex = (case findIndex p_isActive players of
                                                   Some i \<Rightarrow> i | None \<Rightarrow> 0),
                          m_round = jsOr (sc_round scores) 1, m_state = sm_state match,
                          m_settings = validatorOptionsOf (jsOr (o_startingScore settings) 501)
                                         (PartialSettings.truncate settings),
                          m_timestamp = now, m_isAutosaved = False,
                          m_stats = (case sc_stats scores of
                                       Some st \<Rightarrow> deserializeMatchStats st
                                     | None \<Rightarrow> initMatchStats (map p_id players) legsToWin now)\<rparr>;
                     m' = (case findIndex p_isActive players of
                             Some i \<Rightarrow> m
                           | None \<Rightarrow> m\<lparr>m_players := players[0 := first\<lparr>p_isActive := True\<rparr>]\<rparr>)
                 in Inr (m', mgr\<lparr>mm_match := Some m'\<rparr>)))))"

text \<open>
  What the queries of \<open>loadMatch\<close> return for the rows \<open>saveMatchToDb\<close> wrote: the
  \<open>scores\<close> column is not among the columns of its INSERT, so it is NULL; the settings
  object has the five fields of the validator settings; the player rows are joined with
  the names of the \<open>players\<close> table and ordered by position.
\<close>

definition storedSettingsOf :: "ValidatorSettingsOptions \<Rightarrow> StoredSettings" where
  "storedSettingsOf st =
    \<lparr>o_doubleIn = Some (doubleIn st), o_doubleOut = Some (doubleOut st),
     o_masterOut = Some (masterOut st), o_startingScore = Some (startingScore st),
     o_checkoutSuggestions = Some (checkoutSuggestions st), o_legsToWin = None\<rparr>"

definition storedMatchOf :: "Snapshot \<Rightarrow> StoredMatch" where
  "storedMatchOf snap =
    \<lparr>sm_board_id = row_board_id (snap_match snap), sm_mode = row_mode (snap_match snap),
     sm_state = row_state (snap_match snap),
     sm_settings = Some (storedSettingsOf (row_settings (snap_match snap))),
     sm_scores = None\<rparr>"

definition storedPlayersOf :: "(int \<Rightarrow> string) \<Rightarrow> Snapshot \<Rightarrow> StoredPlayer list" where
  "storedPlayersOf names snap =
    sort_key sp_position
      (map (\<lambda>r. \<lparr>sp_player_id = mp_player_id r, sp_position = mp_position r,
                  sp_name = names (mp_player_id r)\<rparr>) (snap_players snap))"

text \<open>Saving a match and loading it back into a fresh manager, with no throw stored.\<close>

definition reloaded :: "Match \<Rightarrow> error + (Match \<times> MatchManager)" where
  "reloaded m =
    loadMatch newMatchManager (m_id m) (Some (storedMatchOf (saveMatchToDb m)))
      (storedPlayersOf (\<lambda>i. the (map_of (map (\<lambda>p. (p_id p, p_name p)) (m_players m)) i))
         (saveMatchToDb m)) [] (m_timestamp m)"

subsection \<open>Reachable managers\<close>

text \<open>
  The managers the program leads to. The constructor builds a manager with no match and
  no \<open>settings\<close> property; \<open>loadMatch\<close> and the public operations lead on from there
  (\<open>createMatch\<close> is among them, although it throws on each of these managers, for want
  of the \<open>settings\<close> property). What \<open>loadMatch\<close> reads is the content of the database,
  which the manager does not control: \<open>storedActive\<close> is the \<open>isActive\<close> flag the stored
  scores hold for a player row, and the loads followed here are those of a stored match
  that marks at most one of its players active (a match stored without scores marks none).
\<close>

definition storedActive :: "StoredMatch \<Rightarrow> StoredPlayer \<Rightarrow> bool" where
  "storedActive match mp =
    (case sm_scores match of
       None \<Rightarrow> False
     | Some scores \<Rightarrow>
        (case sc_players scores of
           None \<Rightarrow> False
         | Some entries \<Rightarrow>
            (case find (\<lambda>p. se_id p = sp_player_id mp) entries of
               Some e \<Rightarrow> se_isActive e = Some True
             | None \<Rightarrow> False)))"

inductive reachable :: "MatchManager \<Rightarrow> bool" where
  reach_new: "reachable newMatchManager"
| reach_loadMatch:
    "reachable mgr \<Longrightarrow>
     length (filter (storedActive match) matchPlayers) \<le> 1 \<Longrightarrow>
     loadMatch mgr matchId (Some match) matchPlayers throws now = Inr (m, mgr')
     \<Longrightarrow> reachable mgr'"
| reach_createMatch:
    "reachable mgr \<Longrightarrow>
     createMatch mgr boardId players mode legsToWin settings savedId now = Inr (m, mgr')
     \<Longrightarrow> reachable mgr'"
| reach_startWarmup:
    "reachable mgr \<Longrightarrow> startWarmup mgr now = Inr (m, mgr') \<Longrightarrow> reachable mgr'"
| reach_endWarmup:
    "reachable mgr \<Longrightarrow> endWarmup mgr now = Inr (m, mgr') \<Longrightarrow> reachable mgr'"
| reach_setBullWinner:
    "reachable mgr \<Longrightarrow> setBullWinner mgr playerId now = Inr (m, mgr') \<Longrightarrow> reachable mgr'"
| reach_processThrow:
    "reachable mgr \<Longrightarrow>
     processThrow mgr playerId segment score coordinates now = Inr (res, mgr')
     \<Longrightarrow> reachable mgr'"
| reach_manualPlayerSwitch:
    "reachable mgr \<Longrightarrow> manualPlayerSwitch mgr now = Inr mgr' \<Longrightarrow> reachable mgr'"
| reach_endMatch:
    "reachable mgr \<Longrightarrow> endMatch mgr winningPlayerId now = Inr (m, mgr') \<Longrightarrow> reachable mgr'"

subsection \<open>Seats\<close>


definition sameSeats :: "Match \<Rightarrow> Match \<Rightarrow> bool" where
  "sameSeats m m' =
    (map p_id (m_players m') = map p_id (m_players m)
     \<and> map p_isActive (m_players m') = map p_isActive (m_players m)
     \<and> m_activePlayerIndex m' = m_activePlayerIndex m)"


subsection \<open>Reading an operation's outcome\<close>

definition succeeded :: "error + 'a \<Rightarrow> bool" where
  "succeeded x = (case x of Inr y \<Rightarrow> True | Inl e \<Rightarrow> False)"

definition thrown :: "error + (ThrowResults \<times> MatchManager) \<Rightarrow> ThrowResults option" where
  "thrown x = (case x of Inr (r, g) \<Rightarrow> Some r | Inl e \<Rightarrow> None)"

definition managerAfter :: "error + ('a \<times> MatchManager) \<Rightarrow> MatchManager" where
  "managerAfter x = (case x of Inr (r, g) \<Rightarrow> g | Inl e \<Rightarrow> newMatchManager)"

definition matchAfter :: "error + ('a \<times> MatchManager) \<Rightarrow> Match option" where
  "matchAfter x = (case x of Inr (r, g) \<Rightarrow> mm_match g | Inl e \<Rightarrow> None)"

definition playersAfter :: "error + ('a \<times> MatchManager) \<Rightarrow> Player list" where
  "playersAfter x = (case matchAfter x of Some m \<Rightarrow> m_players m | None \<Rightarrow> [])"

definition statsAfter :: "error + ('a \<times> MatchManager) \<Rightarrow> int \<Rightarrow> PlayerStats option" where
  "statsAfter x playerId =
    (case matchAfter x of Some m \<Rightarrow> ms_players (m_stats m) playerId | None \<Rightarrow> None)"

text \<open>The state and the \<open>isActive\<close> flags of the match a manager holds.\<close>

definition stateOf :: "MatchManager \<Rightarrow> MatchState option" where
  "stateOf mgr = map_option m_state (mm_match mgr)"

definition flagsOf :: "MatchManager \<Rightarrow> bool list" where
  "flagsOf mgr = (case mm_match mgr of Some m \<Rightarrow> map p_isActive (m_players m) | None \<Rightarrow> [])"

text \<open>The segments of a list of throws.\<close>

definition dartsOf :: "ThrowData list \<Rightarrow> string list" where
  "dartsOf ts = map t_segment ts"

subsection \<open>Sample positions\<close>

text \<open>
  Two players, Alice (id 1) and Bob (id 2), and a match in play between them: \<open>seat\<close>
  builds a player from the score, the score at the start of the turn and the darts of the
  turn so far; \<open>matchInPlay\<close> builds an active first-to-three match in its first leg from
  the settings, the players and the index of the player to throw.
\<close>

definition alice :: PlayerModel where
  "alice = \<lparr>pm_id = 1, pm_name = ''Alice'', pm_stats = None\<rparr>"

definition bob :: PlayerModel where
  "bob = \<lparr>pm_id = 2, pm_name = ''Bob'', pm_stats = None\<rparr>"

definition noSettings :: PartialSettings where
  "noSettings = \<lparr>o_doubleIn = None, o_doubleOut = None, o_masterOut = None,
     o_startingScore = None, o_checkoutSuggestions = None\<rparr>"

definition x01Settings :: "bool \<Rightarrow> int \<Rightarrow> ValidatorSettingsOptions" where
  "x01Settings dIn start = \<lparr>doubleIn = dIn, doubleOut = True, masterOut = False,
     startingScore = start, checkoutSuggestions = True\<rparr>"

definition seat :: "PlayerModel \<Rightarrow> int \<Rightarrow> int \<Rightarrow> int \<Rightarrow> ThrowData list \<Rightarrow> bool \<Rightarrow> Player" where
  "seat player position score turnStart turn active =
    \<lparr>p_id = pm_id player, p_name = pm_name player, p_position = position, p_score = score,
     p_isActive = active, p_isWinner = False, p_history = [], p_currentTurn = turn,
     p_originalScore = turnStart, p_dartsThrown = int (length turn), p_legsWon = 0,
     p_stats = createDefaultStats\<rparr>"

definition matchInPlay :: "ValidatorSettingsOptions \<Rightarrow> Player list \<Rightarrow> nat \<Rightarrow> Match" where
  "matchInPlay opts players active =
    \<lparr>m_id = 0, m_boardId = 1, m_mode = ''x01'', m_players = players, m_legsToWin = 3,
     m_currentLeg = 1, m_legStarters = [Some 1], m_activePlayerIndex = active, m_round = 1,
     m_state = Active, m_settings = opts, m_timestamp = 0, m_isAutosaved = False,
     m_stats = initMatchStats (map p_id players) 3 0\<rparr>"

definition managing :: "Match \<Rightarrow> MatchManager" where
  "managing m = \<lparr>mm_match = Some m, mm_settings = None\<rparr>"

text \<open>
  Alice to throw her first dart of the leg, on 501 in a double-out game, with or without
  double-in.
\<close>

definition openingPosition :: "bool \<Rightarrow> MatchManager" where
  "openingPosition dIn = managing (matchInPlay (x01Settings dIn 501)
     [seat alice 1 501 501 [] True, seat bob 2 501 501 [] False] 0)"

text \<open>A manager whose \<open>settings\<close> property has been given a value, with no match loaded.\<close>

definition configuredManager :: MatchManager where
  "configuredManager = \<lparr>mm_match = None, mm_settings = Some (x01Settings False 501)\<rparr>"

text \<open>
  From that manager: a match between Alice and Bob is created, warmed up and started with
  Bob winning the throw for the bull.
\<close>

definition pendingManager :: MatchManager where
  "pendingManager = managerAfter (createMatch configuredManager 1 [alice, bob] ''x01'' 3 noSettings None 0)"

definition activeManager :: MatchManager where
  "activeManager = managerAfter (setBullWinner
     (managerAfter (endWarmup (managerAfter (startWarmup pendingManager 1)) 2)) 2 3)"

text \<open>
  A match between Alice and Bob as the board service stores it when the match is started:
  match 7 on board 1, pending, with the settings object it was given (double-out, the
  starting score, the number of legs to win), with no scores and no throws. \<open>loaded\<close> is
  the manager the constructor builds after it has loaded that match; \<open>started\<close> is that
  manager after the warmup and the throw for the bull, won by the player \<open>opener\<close>.
\<close>

definition aliceRow :: StoredPlayer where
  "aliceRow = \<lparr>sp_player_id = 1, sp_position = 1, sp_name = ''Alice''\<rparr>"

definition bobRow :: StoredPlayer where
  "bobRow = \<lparr>sp_player_id = 2, sp_position = 2, sp_name = ''Bob''\<rparr>"

definition storedX01 :: "int \<Rightarrow> int \<Rightarrow> StoredMatch" where
  "storedX01 start legs =
    \<lparr>sm_board_id = 1, sm_mode = showInt start, sm_state = Pending,
     sm_settings = Some \<lparr>o_doubleIn = Some False, o_doubleOut = Some True,
                          o_masterOut = Some False, o_startingScore = Some start,
                          o_checkoutSuggestions = Some True, o_legsToWin = Some legs\<rparr>,
     sm_scores = None\<rparr>"

definition loaded :: "int \<Rightarrow> int \<Rightarrow> MatchManager" where
  "loaded start legs =
    managerAfter (loadMatch newMatchManager 7 (Some (storedX01 start legs))
                    [aliceRow, bobRow] [] 0)"

definition started :: "int \<Rightarrow> int \<Rightarrow> int \<Rightarrow> MatchManager" where
  "started start legs opener =
    managerAfter (setBullWinner
      (managerAfter (endWarmup (managerAfter (startWarmup (loaded start legs) 1)) 2)) opener 3)"

text \<open>The same match stored as active, with scores that mark both players active.\<close>

definition bothMarked :: StoredMatch where
  "bothMarked = (storedX01 501 3)
     \<lparr>sm_state := Active,
      sm_scores := Some (emptyScores\<lparr>sc_players := Some
         [\<lparr>se_id = 1, se_score = Some 501, se_isActive = Some True, se_isWinner = Some False\<rparr>,
          \<lparr>se_id = 2, se_score = Some 501, se_isActive = Some True, se_isWinner = Some False\<rparr>]\<rparr>)\<rparr>"

text \<open>
  A leg of 301 played on that match, Alice having won the throw for the bull. \<open>throwAll\<close>
  feeds a list of throws (player, segment, score) to \<open>processThrow\<close>; \<open>throwsSucceed\<close>
  says that each of them returns a result. Alice opens with T20, T20, T20, Bob answers
  S20, S20, S20, and Alice comes back with T20, T15: in \<open>onDouble8\<close> she is on 16 with one
  dart in hand, in a match over the given number of legs.
\<close>

fun throwAll :: "MatchManager \<Rightarrow> (int \<times> string \<times> int) list \<Rightarrow> MatchManager" where
  "throwAll mgr [] = mgr"
| "throwAll mgr ((playerId, segment, score) # ts) =
     throwAll (managerAfter (processThrow mgr playerId segment score None 0)) ts"

fun throwsSucceed :: "MatchManager \<Rightarrow> (int \<times> string \<times> int) list \<Rightarrow> bool" where
  "throwsSucceed mgr [] = True"
| "throwsSucceed mgr ((playerId, segment, score) # ts) =
     (succeeded (processThrow mgr playerId segment score None 0)
      \<and> throwsSucceed (managerAfter (processThrow mgr playerId segment score None 0)) ts)"

definition openingTurns :: "(int \<times> string \<times> int) list" where
  "openingTurns =
    [(1, ''T20'', 60), (1, ''T20'', 60), (1, ''T20'', 60),
     (2, ''S20'', 20), (2, ''S20'', 20), (2, ''S20'', 20),
     (1, ''T20'', 60), (1, ''T15'', 45)]"

definition onDouble8 :: "int \<Rightarrow> MatchManager" where
  "onDouble8 legs = throwAll (started 301 legs 1) openingTurns"

section \<open>Properties of the validator\<close>


text \<open>
  With \<open>isDouble\<close> deciding what a double segment is, the double-out rules hold for every
  dart, a dart scoring from 0 to 60 points: a throw that leaves exactly 1 is a bust
  whatever the segment, a throw that leaves exactly 0 is a bust on a segment that is no
  double and a game shot on a double.
\<close>

lemma validateX01Throw_doubleOut:
  assumes "doubleOut options" and "0 \<le> throwScore" and "throwScore \<le> 60"
  shows "(currentScore - throwScore = 1 \<longrightarrow>
            bust (validateX01Throw currentScore segment throwScore dartsThrown options)
            \<and> \<not> gameShot (validateX01Throw currentScore segment throwScore dartsThrown options))
       \<and> (currentScore - throwScore = 0 \<and> \<not> isDouble segment \<longrightarrow>
            bust (validateX01Throw currentScore segment throwScore dartsThrown options)
            \<and> \<not> gameShot (validateX01Throw currentScore segment throwScore dartsThrown options))
       \<and> (currentScore - throwScore = 0 \<and> isDouble segment \<longrightarrow>
            gameShot (validateX01Throw currentScore segment throwScore dartsThrown options)
            \<and> \<not> bust (validateX01Throw currentScore segment throwScore dartsThrown options))"
proof -
  have one: "currentScore - throwScore = 1 \<Longrightarrow>
      bust (validateX01Throw currentScore segment throwScore dartsThrown options)
      \<and> \<not> gameShot (validateX01Throw currentScore segment throwScore dartsThrown options)"
    using assms by (auto simp: validateX01Throw_def)
  have zero_single: "currentScore - throwScore = 0 \<Longrightarrow> \<not> isDouble segment \<Longrightarrow>
      bust (validateX01Throw currentScore segment throwScore dartsThrown options)
      \<and> \<not> gameShot (validateX01Throw currentScore segment throwScore dartsThrown options)"
    using assms by (auto simp: validateX01Throw_def)
  have zero_double: "currentScore - throwScore = 0 \<Longrightarrow> isDouble segment \<Longrightarrow>
      gameShot (validateX01Throw currentScore segment throwScore dartsThrown options)
      \<and> \<not> bust (validateX01Throw currentScore segment throwScore dartsThrown options)"
    using assms by (auto simp: validateX01Throw_def isMaster_def)
  from one zero_single zero_double show ?thesis by blast
qed

text \<open>
  Claim C7 at a 301 match: with \<open>doubleIn\<close> set, a player still on the starting score
  301 who hits the single 20 should be left on 301. The gate compares the current score
  with the constant 501, so the throw is scored and the player drops to 281; the same
  throw at 501 is held back by the gate.
\<close>

theorem validateX01Throw_doubleIn_301_scores:
  "validateX01Throw 301 ''S20'' 20 0 \<lparr>doubleIn = True, doubleOut = True, masterOut = False\<rparr>
     = \<lparr>valid = True, bust = False, gameShot = False, reason = None, newScore = Some 281\<rparr>
   \<and> validateX01Throw 501 ''S20'' 20 0 \<lparr>doubleIn = True, doubleOut = True, masterOut = False\<rparr>
     = \<lparr>valid = True, bust = False, gameShot = False,
        reason = Some ''Must start with a double'', newScore = Some 501\<rparr>"
  by (simp add: validateX01Throw_def isDouble_def startsWith_def)

text \<open>
  Claim C8 at score 99 with two darts left: 99 cannot be finished in two darts, so the
  suggestion should be null; the fallback for odd scores answers the single-element path
  \<open>S1\<close>, which neither sums to 99 nor ends on a double. At score 3 with one dart
  left the same fallback answers a path of two darts.
\<close>

theorem getCheckoutSuggestion_99_two_darts:
  "getCheckoutSuggestion 99 2 = Some [''S1'']
   \<and> getCheckoutSuggestion 3 1 = Some [''S1'', ''D1'']"
  by code_simp


section \<open>Properties of the match manager\<close>

text \<open>
  Claim C9 on the manager as the constructor builds it: \<open>createMatch\<close> with two players
  and no match loaded should return a pending match. \<open>initializePlayers\<close> reads
  \<open>this.settings.startingScore\<close>, a property the manager does not have, and the call
  ends in a TypeError. On a manager that has been given the property, a list of one
  player is accepted, where the claim says it is rejected.
\<close>

theorem createMatch_fails_on_new_manager:
  "createMatch newMatchManager 1 [alice, bob] ''x01'' 3 noSettings None 0 = Inl TypeError
   \<and> succeeded (createMatch configuredManager 1 [alice] ''x01'' 3 noSettings None 0)"
proof
  show "createMatch newMatchManager 1 [alice, bob] ''x01'' 3 noSettings None 0 = Inl TypeError"
    by (simp add: createMatch_def newMatchManager_def initializePlayers_def)
  show "succeeded (createMatch configuredManager 1 [alice] ''x01'' 3 noSettings None 0)"
    by code_simp
qed

text \<open>
  Claim C4 at Alice's first dart of a 501 leg, a treble 20: the throw is accepted and is
  no bust, and her Statistics record still counts no dart and no point and averages 0.
  The per-throw accumulator \<open>updatePlayerThrow\<close> would have counted one dart and 60
  points, an average of 180; \<open>processThrow\<close> never calls it.
\<close>

theorem processThrow_leaves_statistics_untouched:
  "map_option r_bust (thrown (processThrow (openingPosition False) 1 ''T20'' 60 None 7)) = Some False
   \<and> map p_score (playersAfter (processThrow (openingPosition False) 1 ''T20'' 60 None 7)) = [441, 501]
   \<and> map_option ps_dartsThrown
        (statsAfter (processThrow (openingPosition False) 1 ''T20'' 60 None 7) 1) = Some 0
   \<and> map_option ps_pointsScored
        (statsAfter (processThrow (openingPosition False) 1 ''T20'' 60 None 7) 1) = Some 0
   \<and> map_option ps_averageThrow
        (statsAfter (processThrow (openingPosition False) 1 ''T20'' 60 None 7) 1) = Some 0
   \<and> ps_dartsThrown (updatePlayerThrow initPlayerStats 60 False False False 0) = 1
   \<and> ps_pointsScored (updatePlayerThrow initPlayerStats 60 False False False 0) = 60
   \<and> ps_averageThrow (updatePlayerThrow initPlayerStats 60 False False False 0) = 180"
  by code_simp

subsection \<open>How a throw is processed\<close>

lemma findIndex_SomeD:
  "findIndex P xs = Some i \<Longrightarrow> i < length xs \<and> P (xs ! i)"
proof (induction xs arbitrary: i)
  case Nil
  then show ?case by simp
next
  case (Cons x xs)
  then show ?case by (cases "P x") auto
qed

lemma processThrow_InrE:
  assumes "processThrow mgr playerId segment score coordinates now = Inr (res, mgr')"
  obtains m oc m2 where
    "mm_match mgr = Some m"
    "m_state m = Active"
    "findIndex (\<lambda>p. p_id p = playerId) (m_players m) = Some (m_activePlayerIndex m)"
    "length (p_currentTurn (m_players m ! m_activePlayerIndex m)) < 3"
    "scoreThrow now playerId (m_activePlayerIndex m)
       (validateX01Throw (p_score (m_players m ! m_activePlayerIndex m)) segment score
          (length (p_currentTurn (m_players m ! m_activePlayerIndex m))) (m_settings m))
       (pushThrow (m_activePlayerIndex m)
          (newThrowData m playerId (length (p_currentTurn (m_players m ! m_activePlayerIndex m)))
             segment score coordinates now) m) = Inr oc"
    "finishThrow now (m_activePlayerIndex m)
       (length (p_currentTurn (m_players m ! m_activePlayerIndex m))) oc = Inr (m2, r_checkoutSuggestion res)"
    "r_bust res = oc_bust oc" "r_legWon res = oc_legWon oc" "r_gameShot res = oc_gameShot oc"
    "r_throwData res = newThrowData m playerId (length (p_currentTurn (m_players m ! m_activePlayerIndex m)))
             segment score coordinates now"
    "mgr' = mgr\<lparr>mm_match := Some (saveMatchState now False m2)\<rparr>"
  using assms unfolding processThrow_def
  by (auto simp: Let_def split: option.splits if_splits sum.splits prod.splits)

lemma validateX01Throw_below_zero:
  assumes "0 \<le> throwScore"
    and "\<not> (doubleIn options \<and> currentScore = 501 \<and> \<not> isDouble segment)"
    and "currentScore - throwScore < 0"
  shows "bust (validateX01Throw currentScore segment throwScore dartsThrown options)"
  using assms by (auto simp: validateX01Throw_def)

lemma scoreThrow_bust:
  assumes "bust vr"
  shows "scoreThrow now playerId i vr m =
     Inr \<lparr>oc_match = recordBust playerId
               (updatePlayer i (\<lambda>player. player\<lparr>p_score := p_originalScore player\<rparr>) m),
            oc_bust = True, oc_gameShot = False, oc_legWon = False, oc_matchWon = False\<rparr>"
  using assms by (simp add: scoreThrow_def)

lemma recordBust_players [simp]: "m_players (recordBust playerId m) = m_players m"
  by (simp add: recordBust_def split: option.splits)

lemma moveToNextPlayer_InrD:
  assumes "moveToNextPlayer now m = Inr m'"
  shows "m_activePlayerIndex m < length (m_players m)"
    and "length (m_players m') = length (m_players m)"
    and "m_activePlayerIndex m' = (m_activePlayerIndex m + 1) mod length (m_players m)"
    and "m_state m' = m_state m"
    and "j < length (m_players m) \<Longrightarrow> m_players m' ! j =
          (if j = (m_activePlayerIndex m + 1) mod length (m_players m)
           then (if j = m_activePlayerIndex m then endTurn (m_players m ! j) else m_players m ! j)
                  \<lparr>p_isActive := True\<rparr>
           else if j = m_activePlayerIndex m then endTurn (m_players m ! j) else m_players m ! j)"
  using assms
  by (auto simp: moveToNextPlayer_def Let_def saveMatchState_def endTurn_def nth_list_update
      split: if_splits)

lemma moveToNextPlayer_scores:
  assumes "moveToNextPlayer now m = Inr m'"
  shows "map p_score (m_players m') = map p_score (m_players m)"
proof (rule nth_equalityI)
  show "length (map p_score (m_players m')) = length (map p_score (m_players m))"
    using moveToNextPlayer_InrD(2) [OF assms] by simp
next
  fix j assume "j < length (map p_score (m_players m'))"
  then have j: "j < length (m_players m)"
    using moveToNextPlayer_InrD(2) [OF assms] by simp
  then have j': "j < length (m_players m')"
    using moveToNextPlayer_InrD(2) [OF assms] by simp
  show "map p_score (m_players m') ! j = map p_score (m_players m) ! j"
    using j j' moveToNextPlayer_InrD(5) [OF assms j] by (simp add: endTurn_def)
qed

lemma finishThrow_scores:
  assumes "finishThrow now i d oc = Inr (m2, sug)"
  shows "map p_score (m_players m2) = map p_score (m_players (oc_match oc))"
  using assms
  by (auto simp: finishThrow_def Let_def moveToNextPlayer_scores split: if_splits sum.splits)

lemma succeeded_throw:
  fixes x :: "error + (ThrowResults \<times> MatchManager)"
  shows "succeeded x \<Longrightarrow> x = Inr (the (thrown x), managerAfter x)"
  by (auto simp: succeeded_def thrown_def managerAfter_def split: sum.splits)


text \<open>
  Claim C2: for every \<open>processThrow\<close> that returns a result (so the match is active and
  the thrower is the active player) of a dart whose score is the points value of a segment,
  from 0 to 60, where the player's score minus the throw score is negative: the returned
  result has \<open>bust\<close> set, and the player's score right after the call is the
  \<open>originalScore\<close> held before it, the score at the start of the turn.
\<close>

theorem processThrow_below_zero_is_bust:
  assumes "mm_match mgr = Some m"
    and "processThrow mgr playerId segment score coordinates now = Inr (res, mgr')"
    and "0 \<le> score" and "score \<le> 60"
    and "p_score (m_players m ! m_activePlayerIndex m) - score < 0"
  shows "r_bust res \<and>
    map_option (\<lambda>m'. p_score (m_players m' ! m_activePlayerIndex m)) (mm_match mgr')
      = Some (p_originalScore (m_players m ! m_activePlayerIndex m))"
proof -
  let ?i = "m_activePlayerIndex m"
  let ?p = "m_players m ! ?i"
  let ?d = "length (p_currentTurn ?p)"
  let ?vr = "validateX01Throw (p_score ?p) segment score ?d (m_settings m)"
  let ?m1 = "pushThrow ?i (newThrowData m playerId ?d segment score coordinates now) m"
  from assms(2) obtain m0 oc m2 where
      m0: "mm_match mgr = Some m0"
    and idx: "findIndex (\<lambda>p. p_id p = playerId) (m_players m0) = Some (m_activePlayerIndex m0)"
    and sc: "scoreThrow now playerId (m_activePlayerIndex m0)
       (validateX01Throw (p_score (m_players m0 ! m_activePlayerIndex m0)) segment score
          (length (p_currentTurn (m_players m0 ! m_activePlayerIndex m0))) (m_settings m0))
       (pushThrow (m_activePlayerIndex m0)
          (newThrowData m0 playerId (length (p_currentTurn (m_players m0 ! m_activePlayerIndex m0)))
             segment score coordinates now) m0) = Inr oc"
    and fin: "finishThrow now (m_activePlayerIndex m0)
       (length (p_currentTurn (m_players m0 ! m_activePlayerIndex m0))) oc = Inr (m2, r_checkoutSuggestion res)"
    and rb: "r_bust res = oc_bust oc"
    and mgr': "mgr' = mgr\<lparr>mm_match := Some (saveMatchState now False m2)\<rparr>"
    by (rule processThrow_InrE)
  from m0 assms(1) have [simp]: "m0 = m" by simp
  from idx have lt: "?i < length (m_players m)"
    using findIndex_SomeD by fastforce
  from assms(4,5) have gate: "\<not> (doubleIn (m_settings m) \<and> p_score ?p = 501 \<and> \<not> isDouble segment)"
    by auto
  have b: "bust ?vr"
    using assms(3) gate assms(5) by (rule validateX01Throw_below_zero)
  have oc: "oc = \<lparr>oc_match = recordBust playerId
               (updatePlayer ?i (\<lambda>player. player\<lparr>p_score := p_originalScore player\<rparr>) ?m1),
            oc_bust = True, oc_gameShot = False, oc_legWon = False, oc_matchWon = False\<rparr>"
    using sc scoreThrow_bust [OF b] by simp
  have s1: "p_score (m_players (oc_match oc) ! ?i) = p_originalScore ?p"
    using lt by (simp add: oc pushThrow_def updatePlayer_def)
  have len: "length (m_players (oc_match oc)) = length (m_players m)"
    by (simp add: oc pushThrow_def updatePlayer_def)
  from fin have "map p_score (m_players m2) = map p_score (m_players (oc_match oc))"
    by (simp add: finishThrow_scores)
  then have "map p_score (m_players m2) ! ?i = map p_score (m_players (oc_match oc)) ! ?i"
    by simp
  moreover have "length (m_players m2) = length (m_players (oc_match oc))"
    using \<open>map p_score (m_players m2) = map p_score (m_players (oc_match oc))\<close>
    by (metis length_map)
  ultimately have "p_score (m_players m2 ! ?i) = p_originalScore ?p"
    using lt len s1 by simp
  then show ?thesis
    using rb by (simp add: mgr' oc saveMatchState_def)
qed

text \<open>
  At Alice's third dart of her second turn in the 301 leg: on 16, with the turn begun on
  121, she hits the treble 20. The throw is a bust and she is back on 121.
\<close>

theorem processThrow_below_zero_is_bust_witness:
  "r_bust (the (thrown (processThrow (onDouble8 3) 1 ''T20'' 60 None 7)))
   \<and> map_option (\<lambda>m'. p_score (m_players m' ! 0))
        (mm_match (managerAfter (processThrow (onDouble8 3) 1 ''T20'' 60 None 7))) = Some 121"
proof -
  let ?m = "the (mm_match (onDouble8 3))"
  let ?x = "processThrow (onDouble8 3) 1 ''T20'' 60 None 7"
  have "case mm_match (onDouble8 3) of Some m \<Rightarrow> True | None \<Rightarrow> False" by code_simp
  then have 1: "mm_match (onDouble8 3) = Some ?m"
    by (simp split: option.splits)
  have "succeeded ?x" by code_simp
  then have 2: "?x = Inr (the (thrown ?x), managerAfter ?x)"
    by (rule succeeded_throw)
  have 3: "(0::int) \<le> 60" and 4: "(60::int) \<le> 60" by simp_all
  have 5: "p_score (m_players ?m ! m_activePlayerIndex ?m) - 60 < 0" by code_simp
  have 6: "m_activePlayerIndex ?m = 0" by code_simp
  have 7: "p_originalScore (m_players ?m ! 0) = 121" by code_simp
  from processThrow_below_zero_is_bust [OF 1 2 3 4 5] 6 7
  show ?thesis by simp
qed

subsection \<open>The end of a turn\<close>

lemma updatePlayer_simps [simp]:
  "length (m_players (updatePlayer i f m)) = length (m_players m)"
  "m_activePlayerIndex (updatePlayer i f m) = m_activePlayerIndex m"
  "m_stats (updatePlayer i f m) = m_stats m"
  "m_state (updatePlayer i f m) = m_state m"
  "m_currentLeg (updatePlayer i f m) = m_currentLeg m"
  "m_legsToWin (updatePlayer i f m) = m_legsToWin m"
  by (simp_all add: updatePlayer_def)

lemma updatePlayer_nth:
  "i < length (m_players m) \<Longrightarrow> m_players (updatePlayer i f m) ! i = f (m_players m ! i)"
  by (simp add: updatePlayer_def)

lemma pushThrow_simps [simp]:
  "length (m_players (pushThrow i td m)) = length (m_players m)"
  "m_activePlayerIndex (pushThrow i td m) = m_activePlayerIndex m"
  "m_stats (pushThrow i td m) = m_stats m"
  "m_state (pushThrow i td m) = m_state m"
  by (simp_all add: pushThrow_def)

lemma pushThrow_nth:
  "i < length (m_players m) \<Longrightarrow>
   m_players (pushThrow i td m) ! i =
     (m_players m ! i)\<lparr>p_currentTurn := p_currentTurn (m_players m ! i) @ [td],
                        p_dartsThrown := p_dartsThrown (m_players m ! i) + 1\<rparr>"
  by (simp add: pushThrow_def updatePlayer_def)

lemma recordBust_stats:
  "ms_players (m_stats (recordBust playerId m)) playerId =
     map_option (\<lambda>st. st\<lparr>ps_busts := ps_busts st + 1\<rparr>) (ms_players (m_stats m) playerId)"
  by (simp add: recordBust_def split: option.splits)

lemma recordBust_other [simp]:
  "m_activePlayerIndex (recordBust playerId m) = m_activePlayerIndex m"
  by (simp add: recordBust_def split: option.splits)

text \<open>A throw that does not win the leg leaves the turn and the history as they are.\<close>

lemma scoreThrow_no_leg:
  assumes "scoreThrow now playerId i vr m = Inr oc"
    and "\<not> oc_legWon oc"
    and "i < length (m_players m)"
  shows "length (m_players (oc_match oc)) = length (m_players m)"
    and "m_activePlayerIndex (oc_match oc) = m_activePlayerIndex m"
    and "p_history (m_players (oc_match oc) ! i) = p_history (m_players m ! i)"
    and "p_currentTurn (m_players (oc_match oc) ! i) = p_currentTurn (m_players m ! i)"
    and "p_id (m_players (oc_match oc) ! i) = p_id (m_players m ! i)"
    and "ms_players (m_stats (oc_match oc)) playerId =
          (if oc_bust oc
           then map_option (\<lambda>st. st\<lparr>ps_busts := ps_busts st + 1\<rparr>) (ms_players (m_stats m) playerId)
           else ms_players (m_stats m) playerId)"
proof -
  have nl: "\<not> (valid vr \<and> \<not> bust vr \<and> gameShot vr)"
  proof
    assume "valid vr \<and> \<not> bust vr \<and> gameShot vr"
    with assms(1) have "oc_legWon oc"
      by (auto simp: scoreThrow_def winLeg_def Let_def split: if_splits sum.splits)
    with assms(2) show False by simp
  qed
  consider (scored) "valid vr" "\<not> bust vr" "\<not> gameShot vr" | (busted) "bust vr"
    | (void) "\<not> valid vr" "\<not> bust vr"
    using nl by blast
  then have "length (m_players (oc_match oc)) = length (m_players m)
    \<and> m_activePlayerIndex (oc_match oc) = m_activePlayerIndex m
    \<and> p_history (m_players (oc_match oc) ! i) = p_history (m_players m ! i)
    \<and> p_currentTurn (m_players (oc_match oc) ! i) = p_currentTurn (m_players m ! i)
    \<and> p_id (m_players (oc_match oc) ! i) = p_id (m_players m ! i)
    \<and> ms_players (m_stats (oc_match oc)) playerId =
          (if oc_bust oc
           then map_option (\<lambda>st. st\<lparr>ps_busts := ps_busts st + 1\<rparr>) (ms_players (m_stats m) playerId)
           else ms_players (m_stats m) playerId)"
  proof cases
    case scored
    with assms(1) have "oc = \<lparr>oc_match = updatePlayer i
                   (\<lambda>player. player\<lparr>p_score :=
                      (case newScore vr of Some n \<Rightarrow> n | None \<Rightarrow> p_score player)\<rparr>) m,
                 oc_bust = False, oc_gameShot = False, oc_legWon = False, oc_matchWon = False\<rparr>"
      by (simp add: scoreThrow_def)
    then show ?thesis using assms(3) by (simp add: updatePlayer_nth)
  next
    case busted
    with assms(1) have "oc = \<lparr>oc_match = recordBust playerId
               (updatePlayer i (\<lambda>player. player\<lparr>p_score := p_originalScore player\<rparr>) m),
            oc_bust = True, oc_gameShot = False, oc_legWon = False, oc_matchWon = False\<rparr>"
      by (simp add: scoreThrow_def)
    then show ?thesis using assms(3) by (simp add: updatePlayer_nth recordBust_stats)
  next
    case void
    with assms(1) have "oc = \<lparr>oc_match = m, oc_bust = False, oc_gameShot = False,
               oc_legWon = False, oc_matchWon = False\<rparr>"
      by (simp add: scoreThrow_def)
    then show ?thesis by simp
  qed
  then show "length (m_players (oc_match oc)) = length (m_players m)"
    and "m_activePlayerIndex (oc_match oc) = m_activePlayerIndex m"
    and "p_history (m_players (oc_match oc) ! i) = p_history (m_players m ! i)"
    and "p_currentTurn (m_players (oc_match oc) ! i) = p_currentTurn (m_players m ! i)"
    and "p_id (m_players (oc_match oc) ! i) = p_id (m_players m ! i)"
    and "ms_players (m_stats (oc_match oc)) playerId =
          (if oc_bust oc
           then map_option (\<lambda>st. st\<lparr>ps_busts := ps_busts st + 1\<rparr>) (ms_players (m_stats m) playerId)
           else ms_players (m_stats m) playerId)"
    by simp_all
qed

lemma moveToNextPlayer_stats:
  assumes "moveToNextPlayer now m = Inr m'"
  shows "ms_players (m_stats m') (p_id (m_players m ! m_activePlayerIndex m)) =
     map_option (\<lambda>st. updatePlayerTurn st
         (sum_list (map t_score (p_currentTurn (m_players m ! m_activePlayerIndex m)))))
       (ms_players (m_stats m) (p_id (m_players m ! m_activePlayerIndex m)))"
  using assms
  by (auto simp: moveToNextPlayer_def Let_def saveMatchState_def split: if_splits option.splits)

lemma moveToNextPlayer_turn:
  assumes "moveToNextPlayer now m = Inr m'"
  shows "p_history (m_players m' ! m_activePlayerIndex m) =
           p_history (m_players m ! m_activePlayerIndex m)
             @ p_currentTurn (m_players m ! m_activePlayerIndex m)"
    and "p_currentTurn (m_players m' ! m_activePlayerIndex m) = []"
  using moveToNextPlayer_InrD(5) [OF assms moveToNextPlayer_InrD(1) [OF assms]]
  by (simp_all add: endTurn_def)


text \<open>
  Claim C5 at a dart that wins the leg. In the first leg of a 301 match Alice, on 16 with
  T20 and T15 thrown in this turn, hits the double 8 with her third dart: the turn ends
  and its total is 121. \<open>processThrow\<close> passes the turn on (\<open>moveToNextPlayer\<close>) only when
  the leg was not won, so the turn is neither moved to her history, which still holds the
  three darts of her first turn and no more, nor classified (\<open>tonPlus\<close> stays 0), and
  \<open>setupNextLeg\<close> clears it. Her first turn, ended by a third dart that won nothing, was
  moved and classified (\<open>tonEightyPlus\<close> is 1). When the same dart wins the match, in a
  match over one leg, the turn is left standing in \<open>currentTurn\<close>.
\<close>

theorem processThrow_leg_win_drops_turn:
  "throwsSucceed (started 301 3 1) openingTurns
   \<and> map_option r_legWon (thrown (processThrow (onDouble8 3) 1 ''D8'' 16 None 0)) = Some True
   \<and> map (dartsOf \<circ> p_history) (playersAfter (processThrow (onDouble8 3) 1 ''D8'' 16 None 0))
       = [[''T20'', ''T20'', ''T20''], [''S20'', ''S20'', ''S20'']]
   \<and> map (dartsOf \<circ> p_currentTurn) (playersAfter (processThrow (onDouble8 3) 1 ''D8'' 16 None 0))
       = [[], []]
   \<and> map_option ps_tonPlus (statsAfter (processThrow (onDouble8 3) 1 ''D8'' 16 None 0) 1) = Some 0
   \<and> map_option ps_tonEightyPlus (statsAfter (processThrow (onDouble8 3) 1 ''D8'' 16 None 0) 1)
       = Some 1
   \<and> throwsSucceed (started 301 1 1) openingTurns
   \<and> map_option r_matchWon (thrown (processThrow (onDouble8 1) 1 ''D8'' 16 None 0)) = Some True
   \<and> map (dartsOf \<circ> p_history) (playersAfter (processThrow (onDouble8 1) 1 ''D8'' 16 None 0))
       = [[''T20'', ''T20'', ''T20''], [''S20'', ''S20'', ''S20'']]
   \<and> map (dartsOf \<circ> p_currentTurn) (playersAfter (processThrow (onDouble8 1) 1 ''D8'' 16 None 0))
       = [[''T20'', ''T15'', ''D8''], []]
   \<and> map_option ps_tonPlus (statsAfter (processThrow (onDouble8 1) 1 ''D8'' 16 None 0) 1) = Some 0"
proof (intro conjI)
  show "throwsSucceed (started 301 3 1) openingTurns" by code_simp
  show "map_option r_legWon (thrown (processThrow (onDouble8 3) 1 ''D8'' 16 None 0)) = Some True"
    by code_simp
  show "map (dartsOf \<circ> p_history) (playersAfter (processThrow (onDouble8 3) 1 ''D8'' 16 None 0))
       = [[''T20'', ''T20'', ''T20''], [''S20'', ''S20'', ''S20'']]"
    by code_simp
  show "map (dartsOf \<circ> p_currentTurn) (playersAfter (processThrow (onDouble8 3) 1 ''D8'' 16 None 0))
       = [[], []]"
    by code_simp
  show "map_option ps_tonPlus (statsAfter (processThrow (onDouble8 3) 1 ''D8'' 16 None 0) 1) = Some 0"
    by code_simp
  show "map_option ps_tonEightyPlus (statsAfter (processThrow (onDouble8 3) 1 ''D8'' 16 None 0) 1)
       = Some 1"
    by code_simp
  show "throwsSucceed (started 301 1 1) openingTurns" by code_simp
  show "map_option r_matchWon (thrown (processThrow (onDouble8 1) 1 ''D8'' 16 None 0)) = Some True"
    by code_simp
  show "map (dartsOf \<circ> p_history) (playersAfter (processThrow (onDouble8 1) 1 ''D8'' 16 None 0))
       = [[''T20'', ''T20'', ''T20''], [''S20'', ''S20'', ''S20'']]"
    by code_simp
  show "map (dartsOf \<circ> p_currentTurn) (playersAfter (processThrow (onDouble8 1) 1 ''D8'' 16 None 0))
       = [[''T20'', ''T15'', ''D8''], []]"
    by code_simp
  show "map_option ps_tonPlus (statsAfter (processThrow (onDouble8 1) 1 ''D8'' 16 None 0) 1) = Some 0"
    by code_simp
qed

subsection \<open>The active player\<close>














lemma sameSeats_refl [simp]: "sameSeats m m"
  by (simp add: sameSeats_def)
































lemma succeeded_Inr:
  fixes x :: "error + ('a \<times> MatchManager)"
  shows "succeeded x \<Longrightarrow> \<exists>r. x = Inr (r, managerAfter x)"
  by (auto simp: succeeded_def managerAfter_def split: sum.splits)

lemma reachable_createMatch:
  assumes "reachable mgr"
    and "succeeded (createMatch mgr boardId players mode legsToWin settings savedId now)"
  shows "reachable (managerAfter (createMatch mgr boardId players mode legsToWin settings savedId now))"
  using succeeded_Inr [OF assms(2)] reach_createMatch [OF assms(1)] by blast




text \<open>
  No operation assigns the \<open>settings\<close> property, so no manager the program leads to has
  it, and \<open>createMatch\<close> throws on each of them.
\<close>

lemma createMatch_needs_settings:
  "mm_settings mgr = None \<Longrightarrow>
     createMatch mgr boardId players mode legsToWin settings savedId now \<noteq> Inr r"
  by (auto simp: createMatch_def initializePlayers_def split: option.splits list.splits sum.splits)

lemma reachable_no_settings: "reachable mgr \<Longrightarrow> mm_settings mgr = None"
proof (induction rule: reachable.induct)
  case reach_new
  then show ?case by (simp add: newMatchManager_def)
next
  case (reach_loadMatch mgr match matchPlayers matchId throws now m mgr')
  then show ?case
    by (auto simp: loadMatch_def Let_def split: list.splits option.splits)
next
  case (reach_createMatch mgr boardId players mode legsToWin settings savedId now m mgr')
  then show ?case using createMatch_needs_settings by blast
next
  case (reach_startWarmup mgr now m mgr')
  then show ?case by (auto simp: startWarmup_def Let_def split: option.splits if_splits)
next
  case (reach_endWarmup mgr now m mgr')
  then show ?case by (auto simp: endWarmup_def Let_def split: option.splits if_splits)
next
  case (reach_setBullWinner mgr playerId now m mgr')
  then show ?case by (auto simp: setBullWinner_def Let_def split: option.splits if_splits)
next
  case (reach_processThrow mgr playerId segment score coordinates now res mgr')
  from reach_processThrow.hyps(2) obtain m2 where "mgr' = mgr\<lparr>mm_match := Some m2\<rparr>"
    by (rule processThrow_InrE)
  with reach_processThrow.IH show ?case by simp
next
  case (reach_manualPlayerSwitch mgr now mgr')
  then show ?case by (auto simp: manualPlayerSwitch_def split: option.splits sum.splits)
next
  case (reach_endMatch mgr winningPlayerId now m mgr')
  then show ?case by (auto simp: endMatch_def Let_def split: option.splits)
qed















text \<open>
  The two conditions on what \<open>loadMatch\<close> reads are needed. A stored match whose scores
  mark both players active is loaded, as an active match, with both of them active; and
  when the same player row is read twice, \<open>setBullWinner\<close> marks both entries active.
\<close>

lemma loadMatch_conditions_needed:
  "stateOf (managerAfter (loadMatch newMatchManager 7 (Some bothMarked) [aliceRow, bobRow] [] 0))
     = Some Active
   \<and> flagsOf (managerAfter (loadMatch newMatchManager 7 (Some bothMarked) [aliceRow, bobRow] [] 0))
     = [True, True]
   \<and> stateOf (managerAfter (setBullWinner (managerAfter (endWarmup (managerAfter (startWarmup
        (managerAfter (loadMatch newMatchManager 7 (Some (storedX01 501 3)) [aliceRow, aliceRow] [] 0))
        1)) 2)) 1 3)) = Some Active
   \<and> flagsOf (managerAfter (setBullWinner (managerAfter (endWarmup (managerAfter (startWarmup
        (managerAfter (loadMatch newMatchManager 7 (Some (storedX01 501 3)) [aliceRow, aliceRow] [] 0))
        1)) 2)) 1 3)) = [True, True]"
  by code_simp

subsection \<open>Legs won\<close>

text \<open>
  Claim C6 at the dart that wins the first leg of the 301 match: Alice, on 16, hits the
  double 8. It is a game shot and leg 2 is set up with the match still active, yet the
  \<open>legsWon\<close> field of both players reads 0, so the winner's count has not gone up and the
  sum over the players is 0, not \<open>currentLeg - 1 = 1\<close>. The one place that writes the
  field is \<open>initializePlayers\<close>, which sets it to 0 (\<open>loadMatch\<close> builds its players
  without it); the leg is counted in Alice's Statistics record. When the same dart wins
  the match, in a match over one leg, the field of the winner still reads 0.
\<close>

theorem processThrow_game_shot_keeps_player_legsWon:
  "throwsSucceed (started 301 3 1) openingTurns
   \<and> map_option r_gameShot (thrown (processThrow (onDouble8 3) 1 ''D8'' 16 None 0)) = Some True
   \<and> map_option m_state (matchAfter (processThrow (onDouble8 3) 1 ''D8'' 16 None 0)) = Some Active
   \<and> map_option m_currentLeg (matchAfter (processThrow (onDouble8 3) 1 ''D8'' 16 None 0)) = Some 2
   \<and> map p_legsWon (playersAfter (processThrow (onDouble8 3) 1 ''D8'' 16 None 0)) = [0, 0]
   \<and> map_option ps_legsWon (statsAfter (processThrow (onDouble8 3) 1 ''D8'' 16 None 0) 1) = Some 1
   \<and> throwsSucceed (started 301 1 1) openingTurns
   \<and> map_option r_matchWon (thrown (processThrow (onDouble8 1) 1 ''D8'' 16 None 0)) = Some True
   \<and> map p_legsWon (playersAfter (processThrow (onDouble8 1) 1 ''D8'' 16 None 0)) = [0, 0]"
proof (intro conjI)
  show "throwsSucceed (started 301 3 1) openingTurns" by code_simp
  show "map_option r_gameShot (thrown (processThrow (onDouble8 3) 1 ''D8'' 16 None 0)) = Some True"
    by code_simp
  show "map_option m_state (matchAfter (processThrow (onDouble8 3) 1 ''D8'' 16 None 0)) = Some Active"
    by code_simp
  show "map_option m_currentLeg (matchAfter (processThrow (onDouble8 3) 1 ''D8'' 16 None 0)) = Some 2"
    by code_simp
  show "map p_legsWon (playersAfter (processThrow (onDouble8 3) 1 ''D8'' 16 None 0)) = [0, 0]"
    by code_simp
  show "map_option ps_legsWon (statsAfter (processThrow (onDouble8 3) 1 ''D8'' 16 None 0) 1) = Some 1"
    by code_simp
  show "throwsSucceed (started 301 1 1) openingTurns" by code_simp
  show "map_option r_matchWon (thrown (processThrow (onDouble8 1) 1 ''D8'' 16 None 0)) = Some True"
    by code_simp
  show "map p_legsWon (playersAfter (processThrow (onDouble8 1) 1 ''D8'' 16 None 0)) = [0, 0]"
    by code_simp
qed


section \<open>Properties of the persisted snapshot\<close>

text \<open>
  Claim C10 at the match that has just been started with Bob (id 2) winning the throw for
  the bull: Bob is the active player and the starter of leg 1. \<open>saveMatchToDb\<close> writes no
  \<open>scores\<close> column, which is where \<open>loadMatch\<close> looks for the players' scores and flags,
  the statistics, the leg starters, the leg and the round; loading the saved match back
  falls on the defaults, and Alice (id 1) comes back as the active player and the starter
  of leg 1.
\<close>

theorem saved_match_reloads_with_defaults:
  "map_option (\<lambda>m. map p_isActive (m_players m)) (mm_match activeManager) = Some [False, True]
   \<and> map_option m_activePlayerIndex (mm_match activeManager) = Some 1
   \<and> map_option m_legStarters (mm_match activeManager) = Some [Some 2]
   \<and> map_option (\<lambda>m. map p_isActive (m_players m))
        (matchAfter (reloaded (the (mm_match activeManager)))) = Some [True, False]
   \<and> map_option m_activePlayerIndex
        (matchAfter (reloaded (the (mm_match activeManager)))) = Some 0
   \<and> map_option m_legStarters
        (matchAfter (reloaded (the (mm_match activeManager)))) = Some [Some 1]"
  by code_simp

end
